theory Spec2Isabelle
  imports Main
begin

section \<open>The rate limiter of bot.py\<close>

text \<open>
  \<^verbatim>\<open>check_rate_limit\<close> reads the clock once (\<^verbatim>\<open>datetime.now(timezone.utc)\<close>) and
  reads and mutates the global dict \<^verbatim>\<open>rate_limit\<close>. Both effects are explicit here:
  the clock reading is an argument and the dict is passed in and returned.

  A \<^verbatim>\<open>datetime\<close> has microsecond resolution, so a point in time is the integer number
  of microseconds since the epoch and a \<^verbatim>\<open>timedelta\<close> is an integer number of
  microseconds. \<^verbatim>\<open>total_seconds()\<close> is that number divided by \<open>10^6\<close>; the model keeps
  the microseconds and scales the constants instead, so that \<^verbatim>\<open>elapsed > 300\<close> reads
  \<open>elapsed > seconds 300\<close>. The source computes with floats; the model computes the same
  comparisons, quotients and remainders on the exact values. Python's unbounded \<^verbatim>\<open>int\<close>
  is \<open>int\<close>.
\<close>

type_synonym datetime = int

type_synonym timedelta = int

record user_data =
  count :: int
  start_time :: datetime

type_synonym rate_limit_store = "int \<rightharpoonup> user_data"

definition seconds :: "int \<Rightarrow> timedelta" where
  "seconds n = n * 1000000"

definition RATE_LIMIT_COUNT :: int where
  "RATE_LIMIT_COUNT = 20"

definition RATE_LIMIT_WINDOW :: int where
  "RATE_LIMIT_WINDOW = 300"

definition RATE_LIMIT_COOLDOWN :: int where
  "RATE_LIMIT_COOLDOWN = 600"

text \<open>
  \<^verbatim>\<open>int(remaining // 60)\<close> and \<^verbatim>\<open>int(remaining % 60)\<close> on a duration held in
  microseconds: whole minutes, and the whole seconds of what is left of the last minute.
\<close>

definition whole_minutes :: "timedelta \<Rightarrow> int" where
  "whole_minutes remaining = remaining div seconds 60"

definition whole_seconds :: "timedelta \<Rightarrow> int" where
  "whole_seconds remaining = (remaining mod seconds 60) div seconds 1"

text \<open>
  The function returns the tuple \<^verbatim>\<open>(is_limited, minutes, seconds)\<close>; the model returns
  the updated dict with it.
\<close>

definition check_rate_limit ::
  "rate_limit_store \<Rightarrow> int \<Rightarrow> datetime \<Rightarrow> rate_limit_store \<times> (bool \<times> int \<times> int)" where
  "check_rate_limit rate_limit user_id current_time =
    (let rate_limit1 =
           (if rate_limit user_id = None
            then rate_limit(user_id \<mapsto> \<lparr>count = 0, start_time = current_time\<rparr>)
            else rate_limit);
         user_data =
           (case rate_limit user_id of
              None \<Rightarrow> \<lparr>count = 0, start_time = current_time\<rparr>
            | Some d \<Rightarrow> d);
         elapsed = current_time - start_time user_data
     in if elapsed > seconds RATE_LIMIT_WINDOW then
          (rate_limit1(user_id \<mapsto> \<lparr>count = 1, start_time = current_time\<rparr>), (False, 0, 0))
        else if count user_data \<ge> RATE_LIMIT_COUNT then
          (let remaining = seconds RATE_LIMIT_COOLDOWN - elapsed
           in if remaining \<le> 0 then
                (rate_limit1(user_id \<mapsto> \<lparr>count = 1, start_time = current_time\<rparr>),
                 (False, 0, 0))
              else (rate_limit1, (True, whole_minutes remaining, whole_seconds remaining)))
        else
          (rate_limit1(user_id \<mapsto> user_data\<lparr>count := count user_data + 1\<rparr>),
           (False, 0, 0)))"

text \<open>
  The path of the \<^verbatim>\<open>if\<close> chain that a call takes, with the conditions of
  \<^verbatim>\<open>check_rate_limit\<close> in the order of the source.
\<close>

datatype branch = WindowReset | CooldownExpired | Denied | Counted

definition check_rate_limit_branch :: "rate_limit_store \<Rightarrow> int \<Rightarrow> datetime \<Rightarrow> branch" where
  "check_rate_limit_branch rate_limit user_id current_time =
    (let user_data =
           (case rate_limit user_id of
              None \<Rightarrow> \<lparr>count = 0, start_time = current_time\<rparr>
            | Some d \<Rightarrow> d);
         elapsed = current_time - start_time user_data
     in if elapsed > seconds RATE_LIMIT_WINDOW then WindowReset
        else if count user_data \<ge> RATE_LIMIT_COUNT then
          (if seconds RATE_LIMIT_COOLDOWN - elapsed \<le> 0 then CooldownExpired else Denied)
        else Counted)"

text \<open>Successive calls for one user, one per clock reading, threading the dict.\<close>

fun check_all ::
  "rate_limit_store \<Rightarrow> int \<Rightarrow> datetime list \<Rightarrow> rate_limit_store \<times> (bool \<times> int \<times> int) list" where
  "check_all rate_limit user_id [] = (rate_limit, [])"
| "check_all rate_limit user_id (t # ts) =
    (case check_rate_limit rate_limit user_id t of
       (rate_limit', r) \<Rightarrow>
         (case check_all rate_limit' user_id ts of
            (rate_limit'', rs) \<Rightarrow> (rate_limit'', r # rs)))"

text \<open>The states that calls of \<^verbatim>\<open>check_rate_limit\<close> reach from the empty dict.\<close>

inductive reachable :: "rate_limit_store \<Rightarrow> bool" where
  reachable_empty: "reachable Map.empty"
| reachable_check: "reachable rate_limit \<Longrightarrow>
    reachable (fst (check_rate_limit rate_limit user_id current_time))"

text \<open>The duration that a returned \<^verbatim>\<open>(is_limited, minutes, seconds)\<close> displays, in seconds.\<close>

definition retry_after_seconds :: "bool \<times> int \<times> int \<Rightarrow> int" where
  "retry_after_seconds r = 60 * fst (snd r) + snd (snd r)"

definition Allowed :: "bool \<times> int \<times> int" where
  "Allowed = (False, 0, 0)"

definition is_limited :: "bool \<times> int \<times> int \<Rightarrow> bool" where
  "is_limited r = fst r"

section \<open>Values, exceptions and the outside world of scraper.py\<close>

text \<open>
  The scraper handles whatever \<^verbatim>\<open>json.loads\<close> returns, so a Python value is a JSON
  value: \<^verbatim>\<open>None\<close>, a \<^verbatim>\<open>bool\<close>, an \<^verbatim>\<open>int\<close>, a \<^verbatim>\<open>float\<close>, a \<^verbatim>\<open>str\<close>, a
  \<^verbatim>\<open>list\<close> or a \<^verbatim>\<open>dict\<close> with string keys, kept as an association list that is read
  from the front.

  A \<^verbatim>\<open>float\<close> is finite, \<open>Fin m e\<close> for the value \<open>m * 2 ^ e\<close>, or one of the
  infinities, or not a number: \<^verbatim>\<open>json.loads\<close> gives \<^verbatim>\<open>inf\<close> for \<^verbatim>\<open>1e999\<close> and for
  \<^verbatim>\<open>Infinity\<close>, and \<^verbatim>\<open>nan\<close> for \<^verbatim>\<open>NaN\<close>.
\<close>

datatype pyfloat =
    Fin int int
  | PosInf
  | NegInf
  | NaN

datatype json =
    JNull
  | JBool bool
  | JInt int
  | JFloat pyfloat
  | JStr string
  | JList "json list"
  | JDict "(string \<times> json) list"

datatype exn =
    AttributeError
  | TypeError
  | ValueError
  | OSError
  | OverflowError
  | TransportError

text \<open>\<^verbatim>\<open>bool(v)\<close>, the test behind \<^verbatim>\<open>if v\<close>, \<^verbatim>\<open>not v\<close> and \<^verbatim>\<open>a or b\<close>.\<close>

fun truthy :: "json \<Rightarrow> bool" where
  "truthy JNull = False"
| "truthy (JBool b) = b"
| "truthy (JInt n) = (n \<noteq> 0)"
| "truthy (JFloat (Fin m e)) = (m \<noteq> 0)"
| "truthy (JFloat f) = True"
| "truthy (JStr s) = (s \<noteq> [])"
| "truthy (JList xs) = (xs \<noteq> [])"
| "truthy (JDict kvs) = (kvs \<noteq> [])"

definition py_or :: "json \<Rightarrow> json \<Rightarrow> json" where
  "py_or a b = (if truthy a then a else b)"

text \<open>\<^verbatim>\<open>v == 0\<close>: true of \<^verbatim>\<open>0\<close>, of \<^verbatim>\<open>0.0\<close> and of \<^verbatim>\<open>False\<close>.\<close>

fun eq_zero :: "json \<Rightarrow> bool" where
  "eq_zero (JInt n) = (n = 0)"
| "eq_zero (JBool b) = (\<not> b)"
| "eq_zero (JFloat (Fin m e)) = (m = 0)"
| "eq_zero _ = False"

text \<open>
  \<^verbatim>\<open>v.get(key, default)\<close>: only a \<^verbatim>\<open>dict\<close> has the method, any other value raises
  \<^verbatim>\<open>AttributeError\<close>.
\<close>

fun get :: "json \<Rightarrow> string \<Rightarrow> json \<Rightarrow> exn + json" where
  "get (JDict kvs) key dflt = Inr (case map_of kvs key of None \<Rightarrow> dflt | Some v \<Rightarrow> v)"
| "get _ key dflt = Inl AttributeError"

definition bind_exn :: "exn + 'a \<Rightarrow> ('a \<Rightarrow> exn + 'b) \<Rightarrow> exn + 'b" where
  "bind_exn m f = (case m of Inl e \<Rightarrow> Inl e | Inr v \<Rightarrow> f v)"

record response =
  status_code :: int
  body :: string

text \<open>
  What the scraper calls outside itself: the HTTP client, the yt-dlp extractor, the JSON
  decoder and the string and date functions of the standard library whose results depend on
  Unicode tables or on the platform. Each is a field of the environment; a call that can
  raise returns a sum. \<^verbatim>\<open>REGION_MAP\<close> and \<^verbatim>\<open>LANG_MAP\<close> are the two tables of display
  labels.
\<close>

record env =
  HAS_YTDLP :: bool
  str_strip :: "string \<Rightarrow> string"
  str_upper :: "string \<Rightarrow> string"
  str_lower :: "string \<Rightarrow> string"
  client_head :: "string \<Rightarrow> exn + string"
  client_get :: "string \<Rightarrow> exn + response"
  client_post :: "string \<Rightarrow> string \<Rightarrow> exn + response"
  extract_info :: "string \<Rightarrow> exn + json"
  json_loads :: "string \<Rightarrow> exn + json"
  int_of_str :: "string \<Rightarrow> int option"
  utc_strftime :: "int \<Rightarrow> exn + string"
  repr_value :: "json \<Rightarrow> string"
  REGION_MAP :: "(string \<times> string) list"
  LANG_MAP :: "(string \<times> string) list"

text \<open>The requests that leave the process, in the order they are made.\<close>

datatype io_call =
    Head string
  | ExtractInfo string
  | Get string
  | Post string string

section \<open>Strings\<close>

text \<open>\<^verbatim>\<open>s.lstrip(c)\<close> and \<^verbatim>\<open>s.strip(c)\<close> for a single character \<^verbatim>\<open>c\<close>.\<close>

definition lstrip :: "char \<Rightarrow> string \<Rightarrow> string" where
  "lstrip c s = dropWhile (\<lambda>x. x = c) s"

definition strip :: "char \<Rightarrow> string \<Rightarrow> string" where
  "strip c s = rev (dropWhile (\<lambda>x. x = c) (rev (dropWhile (\<lambda>x. x = c) s)))"

text \<open>The text after the first occurrence of \<open>p\<close> in \<open>s\<close>, and the text before it.\<close>

fun find_after :: "string \<Rightarrow> string \<Rightarrow> string option" where
  "find_after p [] = (if p = [] then Some [] else None)"
| "find_after p (c # cs) =
    (if take (length p) (c # cs) = p then Some (drop (length p) (c # cs))
     else find_after p cs)"

fun find_before :: "string \<Rightarrow> string \<Rightarrow> string option" where
  "find_before p [] = (if p = [] then Some [] else None)"
| "find_before p (c # cs) =
    (if take (length p) (c # cs) = p then Some []
     else map_option ((#) c) (find_before p cs))"

text \<open>\<^verbatim>\<open>p in s\<close> for strings.\<close>

definition contains :: "string \<Rightarrow> string \<Rightarrow> bool" where
  "contains p s = (find_after p s \<noteq> None)"

text \<open>
  \<^verbatim>\<open>re.search(r'tiktok\.com/@([^/?]+)', s)\<close>, group 1: at the leftmost position where
  \<^verbatim>\<open>tiktok.com/@\<close> is followed by a character other than \<^verbatim>\<open>/\<close> and \<^verbatim>\<open>?\<close>, the longest
  run of such characters.
\<close>

fun search_username :: "string \<Rightarrow> string option" where
  "search_username [] = None"
| "search_username (c # cs) =
    (if take 12 (c # cs) = ''tiktok.com/@''
        \<and> takeWhile (\<lambda>x. x \<noteq> CHR ''/'' \<and> x \<noteq> CHR ''?'') (drop 12 (c # cs)) \<noteq> []
     then Some (takeWhile (\<lambda>x. x \<noteq> CHR ''/'' \<and> x \<noteq> CHR ''?'') (drop 12 (c # cs)))
     else search_username cs)"

text \<open>
  The search for the rehydration script element, group 1 of the pattern
  \<^verbatim>\<open><script id="__UNIVERSAL_DATA_FOR_REHYDRATION__"[^>]*>(.*?)</script>\<close> with
  \<^verbatim>\<open>re.DOTALL\<close>: after the first occurrence of the opening text, the tag ends at the
  first \<^verbatim>\<open>>\<close>, and the group runs up to the first \<^verbatim>\<open></script>\<close> after it. If the first
  occurrence has no such end, no later one has.
\<close>

definition search_rehydration :: "string \<Rightarrow> string option" where
  \<open>search_rehydration html =
    (case find_after ''<script id="__UNIVERSAL_DATA_FOR_REHYDRATION__"'' html of
       None \<Rightarrow> None
     | Some rest \<Rightarrow>
         (case find_after ''>'' rest of
            None \<Rightarrow> None
          | Some inner \<Rightarrow> find_before ''</script>'' inner))\<close>

section \<open>Numbers and strings of the normalizer\<close>

text \<open>
  \<^verbatim>\<open>int(v)\<close>: a \<^verbatim>\<open>float\<close> is cut towards zero, an infinity raises
  \<^verbatim>\<open>OverflowError\<close> and not-a-number \<^verbatim>\<open>ValueError\<close>; a \<^verbatim>\<open>str\<close> is parsed;
  \<^verbatim>\<open>None\<close>, a list and a dict raise \<^verbatim>\<open>TypeError\<close>.
\<close>

definition float_trunc :: "int \<Rightarrow> int \<Rightarrow> int" where
  "float_trunc m e =
    (if 0 \<le> e then m * 2 ^ nat e
     else if 0 \<le> m then m div 2 ^ nat (- e)
     else - ((- m) div 2 ^ nat (- e)))"

fun py_int :: "env \<Rightarrow> json \<Rightarrow> exn + int" where
  "py_int e (JInt n) = Inr n"
| "py_int e (JBool b) = Inr (if b then 1 else 0)"
| "py_int e (JFloat (Fin m ex)) = Inr (float_trunc m ex)"
| "py_int e (JFloat NaN) = Inl ValueError"
| "py_int e (JFloat f) = Inl OverflowError"
| "py_int e (JStr s) = (case int_of_str e s of None \<Rightarrow> Inl ValueError | Some n \<Rightarrow> Inr n)"
| "py_int e _ = Inl TypeError"

text \<open>Decimal digits, most significant first.\<close>

fun digits :: "nat \<Rightarrow> string" where
  "digits n =
    (if n < 10 then [''0123456789'' ! n]
     else digits (n div 10) @ [''0123456789'' ! (n mod 10)])"

declare digits.simps [simp del]

text \<open>A comma after every third digit, on the digits in reverse.\<close>

fun group3 :: "string \<Rightarrow> string" where
  "group3 (a # b # c # d # rest) = a # b # c # CHR '','' # group3 (d # rest)"
| "group3 xs = xs"

text \<open>\<^verbatim>\<open>str(n)\<close> and \<^verbatim>\<open>f"{n:,}"\<close> for an \<^verbatim>\<open>int\<close>.\<close>

definition str_int :: "int \<Rightarrow> string" where
  "str_int n = (if n < 0 then CHR ''-'' # digits (nat (- n)) else digits (nat n))"

definition format_grouped :: "int \<Rightarrow> string" where
  "format_grouped n =
    (if n < 0 then CHR ''-'' # rev (group3 (rev (digits (nat (- n)))))
     else rev (group3 (rev (digits (nat n)))))"

text \<open>\<^verbatim>\<open>str(v)\<close>; the text of a float, a list or a dict is left to the environment.\<close>

fun py_str :: "env \<Rightarrow> json \<Rightarrow> string" where
  "py_str e JNull = ''None''"
| "py_str e (JBool b) = (if b then ''True'' else ''False'')"
| "py_str e (JInt n) = str_int n"
| "py_str e (JStr s) = s"
| "py_str e v = repr_value e v"

section \<open>The profile path of scraper.py\<close>

text \<open>
  The methods of the class \<^verbatim>\<open>TikTokScraper\<close>; a leading underscore of a Python name is
  dropped. \<^verbatim>\<open>{"error": True}\<close> is the one failure value of the class.
\<close>

definition error_result :: json where
  "error_result = JDict [(''error'', JBool True)]"

definition format_number :: "env \<Rightarrow> json \<Rightarrow> exn + string" where
  "format_number e num =
    (case py_int e num of
       Inr n \<Rightarrow> Inr (format_grouped n)
     | Inl ex \<Rightarrow> if ex = ValueError \<or> ex = TypeError then Inr (py_str e num) else Inl ex)"

definition resolve_region :: "env \<Rightarrow> json \<Rightarrow> json \<Rightarrow> exn + string" where
  "resolve_region e region language =
    (if truthy region then
       (case region of
          JStr s \<Rightarrow>
            (case map_of (REGION_MAP e) (str_upper e s) of
               Some label \<Rightarrow> Inr label
             | None \<Rightarrow> Inr (str_upper e s))
        | _ \<Rightarrow> Inl AttributeError)
     else Inr ''N/A'')"

definition lang_code_to_name :: "env \<Rightarrow> json \<Rightarrow> exn + string" where
  "lang_code_to_name e code =
    (if \<not> truthy code then Inr ''N/A''
     else (case code of
             JStr s \<Rightarrow>
               (case map_of (LANG_MAP e) (str_lower e s) of
                  Some name \<Rightarrow> Inr name
                | None \<Rightarrow> Inr s)
           | _ \<Rightarrow> Inl AttributeError))"

definition format_user :: "env \<Rightarrow> json \<Rightarrow> json \<Rightarrow> exn + json" where
  "format_user e user stats =
    bind_exn (get user ''createTime'' (JInt 0)) (\<lambda>create_time.
    bind_exn
      (if truthy create_time then
         (case bind_exn (py_int e create_time) (utc_strftime e) of
            Inr s \<Rightarrow> Inr s
          | Inl ex \<Rightarrow> if ex = ValueError \<or> ex = OSError then Inr ''N/A'' else Inl ex)
       else Inr ''N/A'') (\<lambda>created_str.
    bind_exn (get user ''region'' JNull) (\<lambda>region0.
    bind_exn (get user ''language'' JNull) (\<lambda>language0.
    bind_exn (resolve_region e (py_or region0 JNull) (py_or language0 JNull)) (\<lambda>region_display.
    bind_exn (get user ''bioLink'' JNull) (\<lambda>bio_link_data.
    bind_exn
      (case bio_link_data of
         JDict kvs \<Rightarrow> get bio_link_data ''link'' (JStr '''')
       | JStr s \<Rightarrow> Inr bio_link_data
       | _ \<Rightarrow> Inr (JStr '''')) (\<lambda>bio_link.
    bind_exn (get stats ''friendCount'' (JInt 0)) (\<lambda>friend_count.
    bind_exn (format_number e friend_count) (\<lambda>friends.
    bind_exn (get stats ''diggCount'' (JInt 0)) (\<lambda>digg_count.
    bind_exn (format_number e digg_count) (\<lambda>digg.
    bind_exn (get user ''uniqueId'' (JStr ''N/A'')) (\<lambda>username.
    bind_exn (get user ''nickname'' (JStr ''N/A'')) (\<lambda>nickname.
    bind_exn (get user ''id'' (JStr ''N/A'')) (\<lambda>user_id.
    bind_exn (get user ''signature'' (JStr ''N/A'')) (\<lambda>signature.
    bind_exn (get user ''verified'' (JBool False)) (\<lambda>verified.
    bind_exn (get user ''privateAccount'' (JBool False)) (\<lambda>private.
    bind_exn (get stats ''followerCount'' (JInt 0)) (\<lambda>follower_count.
    bind_exn (format_number e follower_count) (\<lambda>followers.
    bind_exn (get stats ''followingCount'' (JInt 0)) (\<lambda>following_count.
    bind_exn (format_number e following_count) (\<lambda>following.
    bind_exn (get stats ''heartCount'' (JInt 0)) (\<lambda>heart_count.
    bind_exn (format_number e heart_count) (\<lambda>likes.
    bind_exn (get stats ''videoCount'' (JInt 0)) (\<lambda>video_count.
    bind_exn (format_number e video_count) (\<lambda>videos.
    bind_exn (lang_code_to_name e (py_or language0 JNull)) (\<lambda>language.
    bind_exn (get user ''avatarLarger'' (JStr '''')) (\<lambda>profile_pic.
    bind_exn (get user ''uniqueId'' (JStr '''')) (\<lambda>link_name.
    Inr (JDict
      [(''error'', JBool False),
       (''username'', username),
       (''nickname'', nickname),
       (''user_id'', JStr (py_str e user_id)),
       (''bio'', py_or signature (JStr ''N/A'')),
       (''verified'', verified),
       (''private'', private),
       (''followers'', JStr followers),
       (''following'', JStr following),
       (''likes'', JStr likes),
       (''videos'', JStr videos),
       (''friends'', JStr friends),
       (''digg'', JStr digg),
       (''created'', JStr created_str),
       (''region'', JStr region_display),
       (''language'', JStr language),
       (''bio_link'', py_or bio_link (JStr ''N/A'')),
       (''profile_pic'', profile_pic),
       (''profile_link'', JStr (''https://www.tiktok.com/@'' @ py_str e link_name)),
       (''raw_user'', user),
       (''raw_stats'', stats)])))))))))))))))))))))))))))))"

text \<open>
  \<^verbatim>\<open>_scrape_tiktok_page\<close>: the whole body is inside \<^verbatim>\<open>try ... except Exception: return None\<close>,
  so the result is a value, \<open>JNull\<close> for \<^verbatim>\<open>None\<close>. It makes one request.
\<close>

definition scrape_tiktok_page :: "env \<Rightarrow> string \<Rightarrow> json \<times> io_call list" where
  "scrape_tiktok_page e url =
    ((case
        bind_exn (client_get e url) (\<lambda>response.
          if status_code response \<noteq> 200 then Inr JNull
          else
            (case search_rehydration (body response) of
               None \<Rightarrow> Inr JNull
             | Some m \<Rightarrow>
                 bind_exn (json_loads e m) (\<lambda>data.
                 bind_exn (get data ''__DEFAULT_SCOPE__'' (JDict [])) (\<lambda>scope.
                 bind_exn (get scope ''webapp.user-detail'' (JDict [])) (\<lambda>user_detail.
                 bind_exn (get user_detail ''userInfo'' JNull) (\<lambda>user_info.
                 if \<not> truthy user_info then Inr JNull
                 else
                   bind_exn (get user_detail ''statusCode'' JNull) (\<lambda>status.
                   if \<not> eq_zero status then Inr JNull else Inr user_info)))))))
      of Inl ex \<Rightarrow> JNull | Inr v \<Rightarrow> v),
     [Get url])"

text \<open>
  The part of \<^verbatim>\<open>get_user_by_username\<close> before the request: the username that the page
  is fetched for, or \<open>None\<close> where the function returns \<^verbatim>\<open>{"error": True}\<close> at once.
\<close>

definition normalize_username :: "env \<Rightarrow> string \<Rightarrow> string option" where
  "normalize_username e username0 =
    (let username = strip CHR ''/'' (lstrip CHR ''@'' (str_strip e username0))
     in if contains ''tiktok.com'' username then
          (case search_username username of
             Some g \<Rightarrow> Some (lstrip CHR ''@'' g)
           | None \<Rightarrow> None)
        else Some (lstrip CHR ''@'' username))"

definition get_user_by_username :: "env \<Rightarrow> string \<Rightarrow> (exn + json) \<times> io_call list" where
  "get_user_by_username e username0 =
    (case normalize_username e username0 of
       None \<Rightarrow> (Inr error_result, [])
     | Some username \<Rightarrow>
         (case scrape_tiktok_page e (''https://www.tiktok.com/@'' @ username) of
            (user_info, calls) \<Rightarrow>
              if \<not> truthy user_info then (Inr error_result, calls)
              else
                (bind_exn (get user_info ''user'' (JDict [])) (\<lambda>user.
                 bind_exn (get user_info ''stats'' (JDict [])) (\<lambda>stats.
                 format_user e user stats)),
                 calls)))"

section \<open>The video path of scraper.py\<close>

definition TIKWM_API :: string where
  "TIKWM_API = ''https://www.tikwm.com/api''"

text \<open>
  The loop \<^verbatim>\<open>for fmt in reversed(info["formats"])\<close> of \<^verbatim>\<open>_ytdlp_download\<close>, entered with
  a true \<^verbatim>\<open>info["formats"]\<close>: only a list gives dicts to the body; the characters of a
  string and the keys of a dict have no \<^verbatim>\<open>get\<close>, and a number is not reversible.
\<close>

fun loop_formats :: "json \<Rightarrow> json list \<Rightarrow> exn + json" where
  "loop_formats video_url [] = Inr video_url"
| "loop_formats video_url (fmt # fmts) =
    bind_exn (get fmt ''url'' JNull) (\<lambda>u.
      if truthy u then Inr u else loop_formats video_url fmts)"

fun reversed_formats :: "json \<Rightarrow> json \<Rightarrow> exn + json" where
  "reversed_formats video_url (JList fmts) = loop_formats video_url (rev fmts)"
| "reversed_formats video_url (JDict kvs) = Inl AttributeError"
| "reversed_formats video_url (JStr s) = Inl AttributeError"
| "reversed_formats video_url _ = Inl TypeError"

text \<open>\<^verbatim>\<open>_ytdlp_download\<close>: \<open>JNull\<close> is its \<^verbatim>\<open>None\<close>.\<close>

definition ytdlp_download :: "env \<Rightarrow> string \<Rightarrow> json \<times> io_call list" where
  "ytdlp_download e url =
    ((case
        bind_exn (extract_info e url) (\<lambda>info.
          if truthy info then
            bind_exn (get info ''url'' JNull) (\<lambda>video_url0.
            bind_exn
              (if \<not> truthy video_url0 then
                 bind_exn (get info ''formats'' JNull) (\<lambda>formats.
                   if truthy formats then reversed_formats video_url0 formats
                   else Inr video_url0)
               else Inr video_url0) (\<lambda>video_url.
            if truthy video_url then
              bind_exn (get info ''title'' (JStr '''')) (\<lambda>title.
              bind_exn (get info ''uploader'' (JStr '''')) (\<lambda>uploader.
              bind_exn (get info ''duration'' (JInt 0)) (\<lambda>duration.
              bind_exn (get info ''thumbnail'' JNull) (\<lambda>thumbnail.
              Inr (JDict
                [(''error'', JBool False),
                 (''video_url'', video_url),
                 (''music_url'', JNull),
                 (''title'', title),
                 (''author'', uploader),
                 (''duration'', duration),
                 (''cover'', thumbnail)])))))
            else Inr JNull))
          else Inr JNull)
      of Inl ex \<Rightarrow> JNull | Inr v \<Rightarrow> v),
     [ExtractInfo url])"

text \<open>
  The three blocks of \<^verbatim>\<open>get_video_no_watermark\<close> that the source marks
  \<^verbatim>\<open># Method 1\<close>, \<^verbatim>\<open># Method 2\<close> and \<^verbatim>\<open># Method 3\<close>. Each is a \<^verbatim>\<open>try\<close> whose
  \<^verbatim>\<open>except Exception: pass\<close> falls through to the next block: \<open>Some\<close> is the dict a block
  returns, \<open>None\<close> is falling through.
\<close>

definition method1 :: "env \<Rightarrow> string \<Rightarrow> json option \<times> io_call list" where
  "method1 e url =
    (case ytdlp_download e url of
       (result, calls) \<Rightarrow>
         ((if truthy result then
             (case get result ''error'' JNull of
                Inr err \<Rightarrow> if \<not> truthy err then Some result else None
              | Inl ex \<Rightarrow> None)
           else None),
          calls))"

definition method2 :: "env \<Rightarrow> string \<Rightarrow> json option \<times> io_call list" where
  "method2 e url =
    ((case
        bind_exn (client_get e url) (\<lambda>response.
          (case search_rehydration (body response) of
             None \<Rightarrow> Inr None
           | Some m \<Rightarrow>
               bind_exn (json_loads e m) (\<lambda>data.
               bind_exn (get data ''__DEFAULT_SCOPE__'' (JDict [])) (\<lambda>scope.
               bind_exn (get scope ''webapp.video-detail'' (JDict [])) (\<lambda>item_detail.
               bind_exn (get item_detail ''itemInfo'' (JDict [])) (\<lambda>item_info0.
               bind_exn (get item_info0 ''itemStruct'' (JDict [])) (\<lambda>item_info.
               bind_exn (get item_info ''video'' (JDict [])) (\<lambda>video.
               bind_exn (get video ''downloadAddr'' JNull) (\<lambda>download_addr.
               bind_exn (get video ''playAddr'' JNull) (\<lambda>play_addr.
               if truthy (py_or download_addr play_addr) then
                 bind_exn (get item_info ''music'' (JDict [])) (\<lambda>music.
                 bind_exn (get music ''playUrl'' JNull) (\<lambda>music_url.
                 bind_exn (get item_info ''desc'' (JStr '''')) (\<lambda>title.
                 bind_exn (get item_info ''author'' (JDict [])) (\<lambda>author.
                 bind_exn (get author ''uniqueId'' (JStr '''')) (\<lambda>author_id.
                 bind_exn (get video ''duration'' (JInt 0)) (\<lambda>duration.
                 bind_exn (get video ''cover'' JNull) (\<lambda>cover.
                 Inr (Some (JDict
                   [(''error'', JBool False),
                    (''video_url'', py_or download_addr play_addr),
                    (''music_url'', music_url),
                    (''title'', title),
                    (''author'', author_id),
                    (''duration'', duration),
                    (''cover'', cover)])))))))))
               else Inr None))))))))))
      of Inl ex \<Rightarrow> None | Inr r \<Rightarrow> r),
     [Get url])"

definition method3 :: "env \<Rightarrow> string \<Rightarrow> json option \<times> io_call list" where
  "method3 e url =
    ((case
        bind_exn (client_post e (TIKWM_API @ ''/'') url) (\<lambda>response.
        bind_exn (json_loads e (body response)) (\<lambda>data.
        bind_exn (get data ''code'' JNull) (\<lambda>code.
        if eq_zero code then
          bind_exn (get data ''data'' JNull) (\<lambda>video_data.
          if truthy video_data then
            bind_exn (get video_data ''hdplay'' JNull) (\<lambda>hdplay.
            bind_exn (get video_data ''play'' JNull) (\<lambda>play.
            bind_exn (get video_data ''music'' JNull) (\<lambda>music.
            bind_exn (get video_data ''title'' (JStr '''')) (\<lambda>title.
            bind_exn (get video_data ''author'' (JDict [])) (\<lambda>author.
            bind_exn (get author ''unique_id'' (JStr '''')) (\<lambda>author_id.
            bind_exn (get video_data ''duration'' (JInt 0)) (\<lambda>duration.
            bind_exn (get video_data ''cover'' JNull) (\<lambda>cover.
            Inr (Some (JDict
              [(''error'', JBool False),
               (''video_url'', py_or hdplay play),
               (''music_url'', music),
               (''title'', title),
               (''author'', author_id),
               (''duration'', duration),
               (''cover'', cover)]))))))))))
          else Inr None)
        else Inr None)))
      of Inl ex \<Rightarrow> None | Inr r \<Rightarrow> r),
     [Post (TIKWM_API @ ''/'') url])"

text \<open>The short-link block: a failed \<^verbatim>\<open>HEAD\<close> request leaves the URL as it was.\<close>

definition resolve_short_url :: "env \<Rightarrow> string \<Rightarrow> string \<times> io_call list" where
  "resolve_short_url e url =
    (if contains ''vm.tiktok.com'' url \<or> contains ''vt.tiktok.com'' url then
       ((case client_head e url of Inl ex \<Rightarrow> url | Inr final \<Rightarrow> final), [Head url])
     else (url, []))"

definition get_video_no_watermark :: "env \<Rightarrow> string \<Rightarrow> json \<times> io_call list" where
  "get_video_no_watermark e url0 =
    (case resolve_short_url e (str_strip e url0) of
       (url, calls0) \<Rightarrow>
         (case (if HAS_YTDLP e then method1 e url else (None, [])) of
            (Some result, calls1) \<Rightarrow> (result, calls0 @ calls1)
          | (None, calls1) \<Rightarrow>
              (case method2 e url of
                 (Some result, calls2) \<Rightarrow> (result, calls0 @ calls1 @ calls2)
               | (None, calls2) \<Rightarrow>
                   (case method3 e url of
                      (Some result, calls3) \<Rightarrow> (result, calls0 @ calls1 @ calls2 @ calls3)
                    | (None, calls3) \<Rightarrow>
                        (error_result, calls0 @ calls1 @ calls2 @ calls3)))))"

section \<open>Notions used to state the properties of the scraper\<close>

text \<open>The requests of a trace that belong to a fetch strategy: all but the short-link one.\<close>

fun is_strategy_call :: "io_call \<Rightarrow> bool" where
  "is_strategy_call (Head url) = False"
| "is_strategy_call _ = True"

definition strategy_calls :: "io_call list \<Rightarrow> io_call list" where
  "strategy_calls calls = filter is_strategy_call calls"

text \<open>The status field that \<^verbatim>\<open>_scrape_tiktok_page\<close> reads in a decoded payload.\<close>

definition status_field :: "json \<Rightarrow> exn + json" where
  "status_field data =
    bind_exn (get data ''__DEFAULT_SCOPE__'' (JDict [])) (\<lambda>scope.
    bind_exn (get scope ''webapp.user-detail'' (JDict [])) (\<lambda>user_detail.
    get user_detail ''statusCode'' JNull))"

text \<open>
  The upstream behaviours under which a profile page gives no profile: the request raises,
  the status is not 200, the page has no rehydration script, its text does not decode, or
  the decoded payload has no status field equal to zero.
\<close>

definition upstream_failure :: "env \<Rightarrow> string \<Rightarrow> bool" where
  "upstream_failure e url =
    (case client_get e url of
       Inl ex \<Rightarrow> True
     | Inr response \<Rightarrow>
         status_code response \<noteq> 200 \<or>
         (case search_rehydration (body response) of
            None \<Rightarrow> True
          | Some m \<Rightarrow>
              (case json_loads e m of
                 Inl ex \<Rightarrow> True
               | Inr data \<Rightarrow>
                   (case status_field data of
                      Inl ex \<Rightarrow> True
                    | Inr status \<Rightarrow> \<not> eq_zero status))))"

text \<open>The items of a returned dict, and the keys that \<^verbatim>\<open>_format_user\<close> copies through.\<close>

fun items :: "json \<Rightarrow> (string \<times> json) list" where
  "items (JDict kvs) = kvs"
| "items _ = []"

fun is_str :: "json \<Rightarrow> bool" where
  "is_str (JStr s) = True"
| "is_str _ = False"

fun is_inf :: "json \<Rightarrow> bool" where
  "is_inf (JFloat PosInf) = True"
| "is_inf (JFloat NegInf) = True"
| "is_inf _ = False"

text \<open>The keys of the stats dict that \<^verbatim>\<open>_format_user\<close> passes to \<^verbatim>\<open>_format_number\<close>.\<close>

definition count_keys :: "string list" where
  "count_keys = [''friendCount'', ''diggCount'', ''followerCount'', ''followingCount'',
     ''heartCount'', ''videoCount'']"

definition copied_keys :: "string list" where
  "copied_keys = [''uniqueId'', ''nickname'', ''verified'', ''privateAccount'', ''avatarLarger'']"

text \<open>
  \<^verbatim>\<open>str.strip()\<close>, \<^verbatim>\<open>str.upper()\<close> and \<^verbatim>\<open>str.lower()\<close> on ASCII text, for the sample
  environments below.
\<close>

definition ascii_space :: "char \<Rightarrow> bool" where
  "ascii_space c = (c \<in> set [CHR '' '', CHR 0x09, CHR 0x0A, CHR 0x0B, CHR 0x0C, CHR 0x0D,
     CHR 0x1C, CHR 0x1D, CHR 0x1E, CHR 0x1F])"

definition ascii_strip :: "string \<Rightarrow> string" where
  "ascii_strip s = rev (dropWhile ascii_space (rev (dropWhile ascii_space s)))"

definition ascii_upper :: "string \<Rightarrow> string" where
  "ascii_upper s =
    map (\<lambda>c. if 97 \<le> (of_char c :: nat) \<and> (of_char c :: nat) \<le> 122
             then char_of (of_char c - (32::nat)) else c) s"

definition ascii_lower :: "string \<Rightarrow> string" where
  "ascii_lower s =
    map (\<lambda>c. if 65 \<le> (of_char c :: nat) \<and> (of_char c :: nat) \<le> 90
             then char_of (of_char c + (32::nat)) else c) s"

text \<open>
  An environment with no network and no yt-dlp: every request raises. The library
  functions are the ASCII ones, the decoder rejects every text, and the tables are empty.
\<close>

definition offline :: env where
  "offline =
    \<lparr>HAS_YTDLP = False,
     str_strip = ascii_strip,
     str_upper = ascii_upper,
     str_lower = ascii_lower,
     client_head = (\<lambda>url. Inl TransportError),
     client_get = (\<lambda>url. Inl TransportError),
     client_post = (\<lambda>url form_url. Inl TransportError),
     extract_info = (\<lambda>url. Inl TransportError),
     json_loads = (\<lambda>s. Inl ValueError),
     int_of_str = (\<lambda>s. None),
     utc_strftime = (\<lambda>n. Inl OSError),
     repr_value = (\<lambda>v. []),
     REGION_MAP = [],
     LANG_MAP = []\<rparr>"

text \<open>The same with a server that answers every page request with status 404.\<close>

definition answers_404 :: env where
  "answers_404 =
    offline\<lparr>client_get := (\<lambda>url. Inr \<lparr>status_code = 404, body = []\<rparr>)\<rparr>"

text \<open>The same with yt-dlp installed and finding a media URL for every page.\<close>

definition ytdlp_finds :: env where
  "ytdlp_finds =
    offline\<lparr>HAS_YTDLP := True,
      extract_info := (\<lambda>url. Inr (JDict [(''url'', JStr ''https://cdn.example/v.mp4'')]))\<rparr>"

text \<open>
  No yt-dlp, the page request raises, and the tikwm API answers with code 0 and a
  \<^verbatim>\<open>data\<close> object that has a title but neither \<^verbatim>\<open>hdplay\<close> nor \<^verbatim>\<open>play\<close>.
\<close>

definition tikwm_body :: string where
  \<open>tikwm_body = ''{"code": 0, "data": {"title": "t"}}''\<close>

definition tikwm_without_play :: env where
  "tikwm_without_play =
    offline\<lparr>client_post := (\<lambda>url form_url. Inr \<lparr>status_code = 200, body = tikwm_body\<rparr>),
      json_loads := (\<lambda>s. if s = tikwm_body
         then Inr (JDict [(''code'', JInt 0), (''data'', JDict [(''title'', JStr ''t'')])])
         else Inl ValueError)\<rparr>"

text \<open>
  The same with a server that answers every page request with a page whose rehydration
  script decodes to a payload of status 0 with a string in the place of the user info.
\<close>

definition rehydration_payload :: string where
  \<open>rehydration_payload =
    ''{"__DEFAULT_SCOPE__": {"webapp.user-detail": {"userInfo": "x", "statusCode": 0}}}''\<close>

definition rehydration_page :: string where
  \<open>rehydration_page =
    ''<html><script id="__UNIVERSAL_DATA_FOR_REHYDRATION__" type="application/json">''
    @ rehydration_payload @ ''</script></html>''\<close>

definition string_user_info :: env where
  "string_user_info =
    offline\<lparr>client_get := (\<lambda>url. Inr \<lparr>status_code = 200, body = rehydration_page\<rparr>),
      json_loads := (\<lambda>s. if s = rehydration_payload
         then Inr (JDict [(''__DEFAULT_SCOPE__'',
           JDict [(''webapp.user-detail'',
             JDict [(''userInfo'', JStr ''x''), (''statusCode'', JInt 0)])])])
         else Inl ValueError)\<rparr>"

section \<open>Properties of the rate limiter\<close>

lemma whole_seconds_eq: "whole_seconds r = (r div seconds 1) mod 60"
proof -
  have "r mod (1000000 * 60) = 1000000 * (r div 1000000 mod 60) + r mod 1000000"
    by (rule zmod_zmult2_eq) simp
  then have "(r mod 60000000) div 1000000 = (1000000 * (r div 1000000 mod 60) + r mod 1000000) div 1000000"
    by simp
  also have "\<dots> = r div 1000000 mod 60"
    by simp
  finally show ?thesis
    by (simp add: whole_seconds_def seconds_def)
qed

lemma whole_minutes_eq: "whole_minutes r = (r div seconds 1) div 60"
proof -
  have "r div (1000000 * 60) = r div 1000000 div 60"
    by (rule zdiv_zmult2_eq) simp
  then show ?thesis
    by (simp add: whole_minutes_def seconds_def)
qed

lemma whole_split:
  "60 * whole_minutes r + whole_seconds r = r div seconds 1"
  by (simp add: whole_minutes_eq whole_seconds_eq)

text \<open>
  C3: a call made when more than the window length has elapsed since \<open>start_time\<close>, for a
  user whose count is below the limit, stores count 1 (whatever the count was) and the
  current time, and returns \<^verbatim>\<open>(False, 0, 0)\<close>.
\<close>

theorem window_reset_restarts_count:
  assumes "rate_limit user_id = Some d"
    and "count d < RATE_LIMIT_COUNT"
    and "current_time - start_time d > seconds RATE_LIMIT_WINDOW"
  shows "check_rate_limit rate_limit user_id current_time =
    (rate_limit(user_id \<mapsto> \<lparr>count = 1, start_time = current_time\<rparr>), Allowed)"
  using assms by (simp add: check_rate_limit_def Allowed_def)

theorem window_reset_restarts_count_witness:
  "check_rate_limit [7 \<mapsto> \<lparr>count = 19, start_time = 0\<rparr>] 7 300000001 =
    ([7 \<mapsto> \<lparr>count = 1, start_time = 300000001\<rparr>], Allowed)"
proof -
  have h1: "[7 \<mapsto> \<lparr>count = 19, start_time = 0\<rparr>] (7::int) =
      Some \<lparr>count = 19, start_time = 0\<rparr>"
    by simp
  have h2: "count \<lparr>count = 19, start_time = 0\<rparr> < RATE_LIMIT_COUNT"
    by (simp add: RATE_LIMIT_COUNT_def)
  have h3: "300000001 - start_time \<lparr>count = 19, start_time = 0\<rparr> > seconds RATE_LIMIT_WINDOW"
    by (simp add: RATE_LIMIT_WINDOW_def seconds_def)
  from window_reset_restarts_count
    [of "[7 \<mapsto> \<lparr>count = 19, start_time = 0\<rparr>]" 7 "\<lparr>count = 19, start_time = 0\<rparr>"
      300000001, OF h1 h2 h3]
  show ?thesis
    by simp
qed

text \<open>
  C10: a call that returns limited leaves the whole dict as it was, so the user's count
  and start time are unchanged.
\<close>

theorem limited_leaves_state:
  assumes "check_rate_limit rate_limit user_id current_time = (rate_limit', r)"
    and "is_limited r"
  shows "rate_limit' = rate_limit"
proof (cases "rate_limit user_id")
  case None
  with assms show ?thesis
    by (auto simp: check_rate_limit_def is_limited_def RATE_LIMIT_COUNT_def Let_def
        split: if_splits)
next
  case (Some d)
  with assms show ?thesis
    by (auto simp: check_rate_limit_def is_limited_def Let_def split: if_splits)
qed

theorem limited_leaves_state_witness:
  "check_rate_limit [7 \<mapsto> \<lparr>count = 20, start_time = 0\<rparr>] 7 1000000 =
     ([7 \<mapsto> \<lparr>count = 20, start_time = 0\<rparr>], (True, 9, 59))
   \<and> is_limited (True, 9, 59)"
proof -
  have l: "is_limited (True, 9, 59)"
    by (simp add: is_limited_def)
  have r: "check_rate_limit [7 \<mapsto> \<lparr>count = 20, start_time = 0\<rparr>] 7 1000000 =
      (fst (check_rate_limit [7 \<mapsto> \<lparr>count = 20, start_time = 0\<rparr>] 7 1000000),
       (True, 9, 59))"
    by (simp add: check_rate_limit_def RATE_LIMIT_COUNT_def RATE_LIMIT_WINDOW_def
        RATE_LIMIT_COOLDOWN_def seconds_def whole_minutes_def whole_seconds_def)
  from limited_leaves_state
    [of "[7 \<mapsto> \<lparr>count = 20, start_time = 0\<rparr>]" 7 1000000, OF r l] r l
  show ?thesis
    by simp
qed

lemma check_fresh:
  assumes "rate_limit user_id = None"
  shows "check_rate_limit rate_limit user_id t =
    (rate_limit(user_id \<mapsto> \<lparr>count = 1, start_time = t\<rparr>), Allowed)"
  using assms
  by (simp add: check_rate_limit_def Allowed_def RATE_LIMIT_COUNT_def RATE_LIMIT_WINDOW_def
      seconds_def)

lemma check_reset:
  assumes "rate_limit user_id = Some d"
    and "t - start_time d > seconds RATE_LIMIT_WINDOW"
  shows "check_rate_limit rate_limit user_id t =
    (rate_limit(user_id \<mapsto> \<lparr>count = 1, start_time = t\<rparr>), Allowed)"
  using assms by (simp add: check_rate_limit_def Allowed_def)

lemma check_counted:
  assumes "rate_limit user_id = Some d"
    and "t - start_time d \<le> seconds RATE_LIMIT_WINDOW"
    and "count d < RATE_LIMIT_COUNT"
  shows "check_rate_limit rate_limit user_id t =
    (rate_limit(user_id \<mapsto> d\<lparr>count := count d + 1\<rparr>), Allowed)"
  using assms by (simp add: check_rate_limit_def Allowed_def)

lemma check_denied:
  assumes "rate_limit user_id = Some d"
    and "t - start_time d \<le> seconds RATE_LIMIT_WINDOW"
    and "count d \<ge> RATE_LIMIT_COUNT"
  shows "check_rate_limit rate_limit user_id t =
    (rate_limit,
     (True, whole_minutes (seconds RATE_LIMIT_COOLDOWN - (t - start_time d)),
      whole_seconds (seconds RATE_LIMIT_COOLDOWN - (t - start_time d))))"
proof -
  from assms(2) have "seconds RATE_LIMIT_COOLDOWN - (t - start_time d) > 0"
    by (simp add: seconds_def RATE_LIMIT_WINDOW_def RATE_LIMIT_COOLDOWN_def)
  with assms show ?thesis
    by (simp add: check_rate_limit_def Let_def)
qed

lemma check_all_counted:
  assumes "rate_limit user_id = Some d"
    and "\<forall>t\<in>set ts. t - start_time d \<le> seconds RATE_LIMIT_WINDOW"
    and "count d + int (length ts) \<le> RATE_LIMIT_COUNT"
  shows "check_all rate_limit user_id ts =
    (rate_limit(user_id \<mapsto> d\<lparr>count := count d + int (length ts)\<rparr>),
     replicate (length ts) Allowed)"
  using assms
proof (induction ts arbitrary: rate_limit d)
  case Nil
  then show ?case by (simp add: fun_upd_idem)
next
  case (Cons t ts)
  let ?d' = "d\<lparr>count := count d + 1\<rparr>"
  let ?rl' = "rate_limit(user_id \<mapsto> ?d')"
  from Cons.prems have step: "check_rate_limit rate_limit user_id t = (?rl', Allowed)"
    by (intro check_counted) auto
  have eq: "?d'\<lparr>count := count ?d' + int (length ts)\<rparr> =
      d\<lparr>count := count d + int (length (t # ts))\<rparr>"
    by simp
  from Cons.prems have "check_all ?rl' user_id ts =
    (?rl'(user_id \<mapsto> ?d'\<lparr>count := count ?d' + int (length ts)\<rparr>),
     replicate (length ts) Allowed)"
    by (intro Cons.IH) auto
  then have "check_all ?rl' user_id ts =
    (rate_limit(user_id \<mapsto> d\<lparr>count := count d + int (length (t # ts))\<rparr>),
     replicate (length ts) Allowed)"
    by (simp only: eq fun_upd_upd)
  with step show ?case
    by (simp add: fun_upd_def)
qed

lemma opening_call:
  assumes "case rate_limit user_id of None \<Rightarrow> True
           | Some d \<Rightarrow> t0 - start_time d > seconds RATE_LIMIT_WINDOW"
  shows "check_rate_limit rate_limit user_id t0 =
    (rate_limit(user_id \<mapsto> \<lparr>count = 1, start_time = t0\<rparr>), Allowed)"
  using assms by (auto simp: check_fresh check_reset split: option.splits)

lemma window_filled:
  assumes "case rate_limit user_id of None \<Rightarrow> True
           | Some d \<Rightarrow> t0 - start_time d > seconds RATE_LIMIT_WINDOW"
    and "int (length ts) = RATE_LIMIT_COUNT - 1"
    and "\<forall>t\<in>set ts. t - t0 \<le> seconds RATE_LIMIT_WINDOW"
  shows "check_all rate_limit user_id (t0 # ts) =
    (rate_limit(user_id \<mapsto> \<lparr>count = RATE_LIMIT_COUNT, start_time = t0\<rparr>),
     replicate (Suc (length ts)) Allowed)"
proof -
  let ?d = "\<lparr>count = 1, start_time = t0\<rparr>"
  let ?rl = "rate_limit(user_id \<mapsto> ?d)"
  have "check_all ?rl user_id ts =
    (?rl(user_id \<mapsto> ?d\<lparr>count := count ?d + int (length ts)\<rparr>), replicate (length ts) Allowed)"
    using assms(2,3) by (intro check_all_counted) auto
  with opening_call [where rate_limit = rate_limit and user_id = user_id and ?t0.0 = t0, OF assms(1)] assms(2) show ?thesis
    by simp
qed

text \<open>
  C1: a call that opens a window (the first call of a user with no entry, or a call made
  more than the window length after the stored start time) and the 19 calls after it, all
  made less than \<open>RATE_LIMIT_WINDOW\<close> seconds after the opening call, return
  \<^verbatim>\<open>(False, 0, 0)\<close>: 20 allowed calls in all. One more call inside the same window is
  limited.
\<close>

theorem fresh_window_allows_N_then_denies:
  assumes "case rate_limit user_id of None \<Rightarrow> True
           | Some d \<Rightarrow> t0 - start_time d > seconds RATE_LIMIT_WINDOW"
    and "int (length ts) = RATE_LIMIT_COUNT - 1"
    and "\<forall>t\<in>set ts. t - t0 < seconds RATE_LIMIT_WINDOW"
    and "t' - t0 < seconds RATE_LIMIT_WINDOW"
  shows "snd (check_all rate_limit user_id (t0 # ts)) = replicate (nat RATE_LIMIT_COUNT) Allowed
    \<and> is_limited (snd (check_rate_limit (fst (check_all rate_limit user_id (t0 # ts))) user_id t'))"
proof -
  let ?rl = "rate_limit(user_id \<mapsto> \<lparr>count = RATE_LIMIT_COUNT, start_time = t0\<rparr>)"
  from assms(3) have "\<forall>t\<in>set ts. t - t0 \<le> seconds RATE_LIMIT_WINDOW"
    by auto
  from window_filled [where rate_limit = rate_limit and user_id = user_id and ?t0.0 = t0 and ts = ts, OF assms(1,2) this]
  have run: "check_all rate_limit user_id (t0 # ts) = (?rl, replicate (Suc (length ts)) Allowed)" .
  from assms(2) have len: "Suc (length ts) = nat RATE_LIMIT_COUNT"
    by (simp add: RATE_LIMIT_COUNT_def)
  have "is_limited (snd (check_rate_limit ?rl user_id t'))"
    using assms(4)
    by (subst check_denied [where d = "\<lparr>count = RATE_LIMIT_COUNT, start_time = t0\<rparr>"])
      (simp_all add: is_limited_def)
  with run len show ?thesis
    by simp
qed

lemma retry_after_denied:
  "retry_after_seconds (True, whole_minutes r, whole_seconds r) = r div seconds 1"
  by (simp add: retry_after_seconds_def whole_split)

lemma limited_iff:
  assumes "rate_limit user_id = Some d"
  shows "is_limited (snd (check_rate_limit rate_limit user_id t)) \<longleftrightarrow>
    t - start_time d \<le> seconds RATE_LIMIT_WINDOW \<and> count d \<ge> RATE_LIMIT_COUNT"
proof (cases "t - start_time d \<le> seconds RATE_LIMIT_WINDOW")
  case False
  with assms show ?thesis
    by (simp add: check_reset is_limited_def Allowed_def)
next
  case True
  with assms show ?thesis
    by (cases "count d \<ge> RATE_LIMIT_COUNT")
      (simp_all add: check_denied check_counted is_limited_def Allowed_def)
qed

lemma fresh_not_limited:
  assumes "rate_limit user_id = None"
  shows "\<not> is_limited (snd (check_rate_limit rate_limit user_id t))"
  using assms by (simp add: check_fresh is_limited_def Allowed_def)

lemma fst_check_all_Cons:
  "fst (check_all rate_limit user_id (t # ts)) =
    fst (check_all (fst (check_rate_limit rate_limit user_id t)) user_id ts)"
  by (simp split: prod.splits)

lemma reachable_check_all:
  "reachable rate_limit \<Longrightarrow> reachable (fst (check_all rate_limit user_id ts))"
proof (induction ts arbitrary: rate_limit)
  case Nil
  then show ?case by simp
next
  case (Cons t ts)
  from Cons.prems have "reachable (fst (check_rate_limit rate_limit user_id t))"
    by (rule reachable_check)
  from Cons.IH [OF this] show ?case
    by (simp only: fst_check_all_Cons)
qed

theorem fresh_window_allows_N_then_denies_witness:
  "snd (check_all Map.empty 7 (0 # replicate 19 1000000)) = replicate 20 Allowed
   \<and> is_limited (snd (check_rate_limit
        (fst (check_all Map.empty 7 (0 # replicate 19 1000000))) 7 2000000))"
proof -
  have h1: "case (Map.empty :: rate_limit_store) 7 of None \<Rightarrow> True
            | Some d \<Rightarrow> 0 - start_time d > seconds RATE_LIMIT_WINDOW"
    by simp
  have h2: "int (length (replicate 19 (1000000::int))) = RATE_LIMIT_COUNT - 1"
    by (simp add: RATE_LIMIT_COUNT_def)
  have h3: "\<forall>t\<in>set (replicate 19 (1000000::int)). t - 0 < seconds RATE_LIMIT_WINDOW"
    by (simp add: RATE_LIMIT_WINDOW_def seconds_def)
  have h4: "2000000 - 0 < seconds RATE_LIMIT_WINDOW"
    by (simp add: RATE_LIMIT_WINDOW_def seconds_def)
  from fresh_window_allows_N_then_denies
    [where rate_limit = Map.empty and user_id = 7 and ?t0.0 = 0
      and ts = "replicate 19 1000000" and t' = 2000000, OF h1 h2 h3 h4]
  show ?thesis
    by (simp add: RATE_LIMIT_COUNT_def)
qed

text \<open>
  C9, amended: in every state, reachable or not, a limited call reports at least
  \<open>RATE_LIMIT_COOLDOWN - RATE_LIMIT_WINDOW = 300\<close> seconds, and no call takes the
  branch \<^verbatim>\<open>remaining <= 0\<close> under \<^verbatim>\<open>count >= RATE_LIMIT_COUNT\<close>.
\<close>

theorem limited_reports_at_least_gap:
  "(is_limited (snd (check_rate_limit rate_limit user_id t)) \<longrightarrow>
      RATE_LIMIT_COOLDOWN - RATE_LIMIT_WINDOW
        \<le> retry_after_seconds (snd (check_rate_limit rate_limit user_id t)))
   \<and> check_rate_limit_branch rate_limit user_id t \<noteq> CooldownExpired"
proof
  show "is_limited (snd (check_rate_limit rate_limit user_id t)) \<longrightarrow>
      RATE_LIMIT_COOLDOWN - RATE_LIMIT_WINDOW
        \<le> retry_after_seconds (snd (check_rate_limit rate_limit user_id t))"
  proof (cases "rate_limit user_id")
    case None
    then show ?thesis
      by (simp add: fresh_not_limited)
  next
    case (Some d)
    show ?thesis
    proof
      assume "is_limited (snd (check_rate_limit rate_limit user_id t))"
      with Some have le: "t - start_time d \<le> seconds RATE_LIMIT_WINDOW"
        and full: "count d \<ge> RATE_LIMIT_COUNT"
        by (simp_all add: limited_iff)
      let ?remaining = "seconds RATE_LIMIT_COOLDOWN - (t - start_time d)"
      from le have "300000000 \<le> ?remaining"
        by (simp add: seconds_def RATE_LIMIT_WINDOW_def RATE_LIMIT_COOLDOWN_def)
      then have "300000000 div 1000000 \<le> ?remaining div 1000000"
        by (rule zdiv_mono1) simp
      then have "300 \<le> ?remaining div seconds 1"
        by (simp add: seconds_def)
      with Some le full show "RATE_LIMIT_COOLDOWN - RATE_LIMIT_WINDOW
        \<le> retry_after_seconds (snd (check_rate_limit rate_limit user_id t))"
        by (simp add: check_denied retry_after_denied RATE_LIMIT_WINDOW_def
            RATE_LIMIT_COOLDOWN_def)
    qed
  qed
next
  show "check_rate_limit_branch rate_limit user_id t \<noteq> CooldownExpired"
    by (simp add: check_rate_limit_branch_def Let_def seconds_def RATE_LIMIT_WINDOW_def
        RATE_LIMIT_COOLDOWN_def split: option.splits)
qed

theorem limited_reports_at_least_gap_witness:
  "is_limited (snd (check_rate_limit [7 \<mapsto> \<lparr>count = 20, start_time = 0\<rparr>] 7 1000000))
   \<and> RATE_LIMIT_COOLDOWN - RATE_LIMIT_WINDOW
     \<le> retry_after_seconds (snd (check_rate_limit [7 \<mapsto> \<lparr>count = 20, start_time = 0\<rparr>] 7 1000000))
   \<and> check_rate_limit_branch [7 \<mapsto> \<lparr>count = 20, start_time = 0\<rparr>] 7 1000000 = Denied"
proof -
  have l: "is_limited (snd (check_rate_limit [7 \<mapsto> \<lparr>count = 20, start_time = 0\<rparr>] 7 1000000))"
    by (simp add: check_rate_limit_def is_limited_def RATE_LIMIT_COUNT_def RATE_LIMIT_WINDOW_def
        RATE_LIMIT_COOLDOWN_def seconds_def)
  have b: "check_rate_limit_branch [7 \<mapsto> \<lparr>count = 20, start_time = 0\<rparr>] 7 1000000 = Denied"
    by (simp add: check_rate_limit_branch_def RATE_LIMIT_COUNT_def RATE_LIMIT_WINDOW_def
        RATE_LIMIT_COOLDOWN_def seconds_def)
  from limited_reports_at_least_gap
    [where rate_limit = "[7 \<mapsto> \<lparr>count = 20, start_time = 0\<rparr>]" and user_id = 7
      and t = 1000000] l b
  show ?thesis
    by blast
qed

text \<open>
  C9 as stated fails at the boundary: after 20 calls at time 0, a call exactly 300 seconds
  later is still inside the window (\<^verbatim>\<open>elapsed > RATE_LIMIT_WINDOW\<close> is false) and is
  limited with 5 minutes 0 seconds, which is not more than 300 seconds.
\<close>

theorem limited_above_gap_counterexample:
  "reachable (fst (check_all Map.empty 7 (0 # replicate 19 0)))
   \<and> snd (check_rate_limit (fst (check_all Map.empty 7 (0 # replicate 19 0))) 7 300000000)
       = (True, 5, 0)
   \<and> \<not> RATE_LIMIT_COOLDOWN - RATE_LIMIT_WINDOW < retry_after_seconds (True, 5, 0)"
proof -
  have h1: "case (Map.empty :: rate_limit_store) 7 of None \<Rightarrow> True
            | Some d \<Rightarrow> 0 - start_time d > seconds RATE_LIMIT_WINDOW"
    by simp
  have h2: "int (length (replicate 19 (0::int))) = RATE_LIMIT_COUNT - 1"
    by (simp add: RATE_LIMIT_COUNT_def)
  have h3: "\<forall>t\<in>set (replicate 19 (0::int)). t - 0 \<le> seconds RATE_LIMIT_WINDOW"
    by (simp add: RATE_LIMIT_WINDOW_def seconds_def)
  from window_filled
    [where rate_limit = Map.empty and user_id = 7 and ?t0.0 = 0 and ts = "replicate 19 0",
      OF h1 h2 h3]
  have st: "fst (check_all Map.empty 7 (0 # replicate 19 0)) =
      [7 \<mapsto> \<lparr>count = 20, start_time = 0\<rparr>]"
    by (simp add: RATE_LIMIT_COUNT_def)
  have r: "reachable (fst (check_all Map.empty 7 (0 # replicate 19 0)))"
    by (rule reachable_check_all) (rule reachable_empty)
  have d: "snd (check_rate_limit [7 \<mapsto> \<lparr>count = 20, start_time = 0\<rparr>] 7 300000000) = (True, 5, 0)"
    by (simp add: check_rate_limit_def RATE_LIMIT_COUNT_def RATE_LIMIT_WINDOW_def
        RATE_LIMIT_COOLDOWN_def seconds_def whole_minutes_def whole_seconds_def)
  have n: "\<not> RATE_LIMIT_COOLDOWN - RATE_LIMIT_WINDOW < retry_after_seconds (True, 5, 0)"
    by (simp add: retry_after_seconds_def RATE_LIMIT_WINDOW_def RATE_LIMIT_COOLDOWN_def)
  from r d n show ?thesis
    by (simp only: st) simp
qed

lemma check_all_two:
  "snd (check_all rate_limit user_id [t1, t2]) =
    [snd (check_rate_limit rate_limit user_id t1),
     snd (check_rate_limit (fst (check_rate_limit rate_limit user_id t1)) user_id t2)]"
  by (simp split: prod.splits)

lemma div_seconds_mono:
  assumes "(a::int) \<le> b"
  shows "a div seconds 1 \<le> b div seconds 1"
  using assms by (simp add: seconds_def zdiv_mono1)

lemma div_seconds_step:
  assumes "(a::int) + seconds 1 \<le> b"
  shows "a div seconds 1 < b div seconds 1"
proof -
  from assms have "(a + 1000000) div 1000000 \<le> b div 1000000"
    by (simp add: seconds_def zdiv_mono1)
  moreover have "(a + 1000000) div 1000000 = a div 1000000 + 1"
    by simp
  ultimately show ?thesis
    by (simp add: seconds_def)
qed

text \<open>
  C2, amended: for a user whose count has reached the limit, of two successive denied calls
  at increasing times the later one never reports a longer wait than the earlier one, and
  reports a strictly shorter wait when the calls are at least one second apart. A call made
  \<open>RATE_LIMIT_COOLDOWN\<close> seconds or more after the window start is allowed and stores
  count 1 with the current time.
\<close>

theorem denied_retry_nonincreasing_then_allowed:
  assumes "rate_limit user_id = Some d"
    and "count d \<ge> RATE_LIMIT_COUNT"
  shows "(t1 < t2 \<and> snd (check_all rate_limit user_id [t1, t2]) = [r1, r2]
            \<and> is_limited r1 \<and> is_limited r2 \<longrightarrow>
          retry_after_seconds r2 \<le> retry_after_seconds r1
          \<and> (seconds 1 \<le> t2 - t1 \<longrightarrow> retry_after_seconds r2 < retry_after_seconds r1))
    \<and> (seconds RATE_LIMIT_COOLDOWN \<le> t3 - start_time d \<longrightarrow>
          check_rate_limit rate_limit user_id t3 =
            (rate_limit(user_id \<mapsto> \<lparr>count = 1, start_time = t3\<rparr>), Allowed))"
proof (intro conjI impI)
  assume "seconds RATE_LIMIT_COOLDOWN \<le> t3 - start_time d"
  then have "t3 - start_time d > seconds RATE_LIMIT_WINDOW"
    by (simp add: seconds_def RATE_LIMIT_WINDOW_def RATE_LIMIT_COOLDOWN_def)
  with assms(1) show "check_rate_limit rate_limit user_id t3 =
      (rate_limit(user_id \<mapsto> \<lparr>count = 1, start_time = t3\<rparr>), Allowed)"
    by (rule check_reset)
next
  assume a: "t1 < t2 \<and> snd (check_all rate_limit user_id [t1, t2]) = [r1, r2]
    \<and> is_limited r1 \<and> is_limited r2"
  let ?rem = "\<lambda>t. seconds RATE_LIMIT_COOLDOWN - (t - start_time d)"
  from a have both: "snd (check_rate_limit rate_limit user_id t1) = r1
    \<and> snd (check_rate_limit (fst (check_rate_limit rate_limit user_id t1)) user_id t2) = r2"
    unfolding check_all_two by blast
  then have r1: "r1 = snd (check_rate_limit rate_limit user_id t1)"
    by simp
  with a assms(1) have le1: "t1 - start_time d \<le> seconds RATE_LIMIT_WINDOW"
    by (simp add: limited_iff)
  from assms(1) le1 assms(2) have c1: "check_rate_limit rate_limit user_id t1 =
      (rate_limit, (True, whole_minutes (?rem t1), whole_seconds (?rem t1)))"
    by (rule check_denied)
  with both have r2: "r2 = snd (check_rate_limit rate_limit user_id t2)"
    by simp
  with a assms(1) have le2: "t2 - start_time d \<le> seconds RATE_LIMIT_WINDOW"
    by (simp add: limited_iff)
  from assms(1) le2 assms(2) have c2: "check_rate_limit rate_limit user_id t2 =
      (rate_limit, (True, whole_minutes (?rem t2), whole_seconds (?rem t2)))"
    by (rule check_denied)
  from r1 c1 have v1: "retry_after_seconds r1 = ?rem t1 div seconds 1"
    by (simp add: retry_after_denied)
  from r2 c2 have v2: "retry_after_seconds r2 = ?rem t2 div seconds 1"
    by (simp add: retry_after_denied)
  from a have "?rem t2 \<le> ?rem t1"
    by simp
  then show "retry_after_seconds r2 \<le> retry_after_seconds r1"
    unfolding v1 v2 by (rule div_seconds_mono)
  assume "seconds 1 \<le> t2 - t1"
  then have "?rem t2 + seconds 1 \<le> ?rem t1"
    by simp
  then show "retry_after_seconds r2 < retry_after_seconds r1"
    unfolding v1 v2 by (rule div_seconds_step)
qed

theorem denied_retry_nonincreasing_then_allowed_witness:
  "snd (check_all [7 \<mapsto> \<lparr>count = 20, start_time = 0\<rparr>] 7 [1000000, 3000000]) =
     [(True, 9, 59), (True, 9, 57)]
   \<and> retry_after_seconds (True, 9, 57) < retry_after_seconds (True, 9, 59)
   \<and> check_rate_limit [7 \<mapsto> \<lparr>count = 20, start_time = 0\<rparr>] 7 600000000 =
       ([7 \<mapsto> \<lparr>count = 1, start_time = 600000000\<rparr>], Allowed)"
proof -
  let ?rl = "[7 \<mapsto> \<lparr>count = 20, start_time = 0\<rparr>] :: rate_limit_store"
  have h1: "?rl 7 = Some \<lparr>count = 20, start_time = 0\<rparr>"
    by simp
  have h2: "count \<lparr>count = 20, start_time = 0\<rparr> \<ge> RATE_LIMIT_COUNT"
    by (simp add: RATE_LIMIT_COUNT_def)
  have c1: "check_rate_limit ?rl 7 1000000 = (?rl, (True, 9, 59))"
    by (simp add: check_rate_limit_def RATE_LIMIT_COUNT_def RATE_LIMIT_WINDOW_def
        RATE_LIMIT_COOLDOWN_def seconds_def whole_minutes_def whole_seconds_def)
  have c2: "check_rate_limit ?rl 7 3000000 = (?rl, (True, 9, 57))"
    by (simp add: check_rate_limit_def RATE_LIMIT_COUNT_def RATE_LIMIT_WINDOW_def
        RATE_LIMIT_COOLDOWN_def seconds_def whole_minutes_def whole_seconds_def)
  have run: "snd (check_all ?rl 7 [1000000, 3000000]) = [(True, 9, 59), (True, 9, 57)]"
    by (simp only: check_all_two c1 c2 fst_conv snd_conv)
  have a: "(1000000::int) < 3000000 \<and> is_limited (True, 9, 59) \<and> is_limited (True, 9, 57)
      \<and> seconds 1 \<le> 3000000 - 1000000
      \<and> seconds RATE_LIMIT_COOLDOWN \<le> 600000000 - start_time \<lparr>count = 20, start_time = 0\<rparr>"
    by (simp add: is_limited_def seconds_def RATE_LIMIT_COOLDOWN_def)
  from denied_retry_nonincreasing_then_allowed
    [where rate_limit = ?rl and user_id = 7 and d = "\<lparr>count = 20, start_time = 0\<rparr>"
      and ?t1.0 = 1000000 and ?t2.0 = 3000000 and ?r1.0 = "(True, 9, 59)"
      and ?r2.0 = "(True, 9, 57)" and ?t3.0 = 600000000, OF h1 h2] run a
  show ?thesis
    by simp
qed

text \<open>
  C2 as stated fails on the returned values: the function returns whole minutes and whole
  seconds, so two denied calls 0.2 and 0.5 seconds after the window start both report
  9 minutes 59 seconds.
\<close>

theorem denied_retry_strict_counterexample:
  "snd (check_all [7 \<mapsto> \<lparr>count = 20, start_time = 0\<rparr>] 7 [200000, 500000]) =
     [(True, 9, 59), (True, 9, 59)]
   \<and> (200000 :: int) < 500000
   \<and> is_limited (True, 9, 59)
   \<and> \<not> retry_after_seconds (True, 9, 59) < retry_after_seconds (True, 9, 59)"
proof -
  let ?rl = "[7 \<mapsto> \<lparr>count = 20, start_time = 0\<rparr>] :: rate_limit_store"
  have c1: "check_rate_limit ?rl 7 200000 = (?rl, (True, 9, 59))"
    by (simp add: check_rate_limit_def RATE_LIMIT_COUNT_def RATE_LIMIT_WINDOW_def
        RATE_LIMIT_COOLDOWN_def seconds_def whole_minutes_def whole_seconds_def)
  have c2: "check_rate_limit ?rl 7 500000 = (?rl, (True, 9, 59))"
    by (simp add: check_rate_limit_def RATE_LIMIT_COUNT_def RATE_LIMIT_WINDOW_def
        RATE_LIMIT_COOLDOWN_def seconds_def whole_minutes_def whole_seconds_def)
  have "snd (check_all ?rl 7 [200000, 500000]) = [(True, 9, 59), (True, 9, 59)]"
    by (simp only: check_all_two c1 c2 fst_conv snd_conv)
  then show ?thesis
    by (simp add: is_limited_def)
qed

section \<open>Properties of the scraper\<close>

lemma bind_exn_Inr [simp]: "bind_exn (Inr v) f = f v"
  by (simp add: bind_exn_def)

lemma bind_exn_Inl [simp]: "bind_exn (Inl ex) f = Inl ex"
  by (simp add: bind_exn_def)

lemma snd_method1 [simp]: "snd (method1 e url) = [ExtractInfo url]"
  by (simp add: method1_def ytdlp_download_def split: prod.splits)

lemma snd_method2 [simp]: "snd (method2 e url) = [Get url]"
  by (simp add: method2_def)

lemma snd_method3 [simp]: "snd (method3 e url) = [Post (TIKWM_API @ ''/'') url]"
  by (simp add: method3_def)

lemma strategy_calls_resolve [simp]:
  "strategy_calls (snd (resolve_short_url e url) @ calls) = strategy_calls calls"
  by (simp add: resolve_short_url_def strategy_calls_def)

lemma calls_after_method1:
  "strategy_calls (snd (
      case method2 e url of
        (Some result, calls2) \<Rightarrow> (result, calls0 @ calls1 @ calls2)
      | (None, calls2) \<Rightarrow>
          (case method3 e url of
             (Some result, calls3) \<Rightarrow> (result, calls0 @ calls1 @ calls2 @ calls3)
           | (None, calls3) \<Rightarrow> (error_result, calls0 @ calls1 @ calls2 @ calls3)))) =
    strategy_calls (calls0 @ calls1) @
      Get url # (if fst (method2 e url) \<noteq> None then [] else [Post (TIKWM_API @ ''/'') url])"
proof -
  have m2: "method2 e url = (fst (method2 e url), [Get url])"
    by (simp add: prod_eq_iff)
  have m3: "method3 e url = (fst (method3 e url), [Post (TIKWM_API @ ''/'') url])"
    by (simp add: prod_eq_iff)
  show ?thesis
  proof (cases "fst (method2 e url)")
    case (Some result)
    with m2 have "method2 e url = (Some result, [Get url])"
      by simp
    then show ?thesis
      by (simp add: strategy_calls_def)
  next
    case None
    with m2 have none2: "method2 e url = (None, [Get url])"
      by simp
    show ?thesis
    proof (cases "fst (method3 e url)")
      case (Some result)
      with m3 have "method3 e url = (Some result, [Post (TIKWM_API @ ''/'') url])"
        by simp
      with none2 show ?thesis
        by (simp add: strategy_calls_def)
    next
      case None
      with m3 have "method3 e url = (None, [Post (TIKWM_API @ ''/'') url])"
        by simp
      with none2 show ?thesis
        by (simp add: strategy_calls_def)
    qed
  qed
qed

text \<open>
  C4: the strategy requests of \<^verbatim>\<open>get_video_no_watermark\<close> are, in this order, the
  yt-dlp extraction (when yt-dlp is installed), the page request and the tikwm request,
  all for the resolved URL. The list stops after the first block that returns a result:
  nothing follows a successful extraction, and no tikwm request follows a successful page
  scrape.
\<close>

theorem strategies_tried_in_order:
  "strategy_calls (snd (get_video_no_watermark e url0)) =
    (if HAS_YTDLP e then [ExtractInfo (fst (resolve_short_url e (str_strip e url0)))] else []) @
    (if HAS_YTDLP e \<and> fst (method1 e (fst (resolve_short_url e (str_strip e url0)))) \<noteq> None
     then []
     else Get (fst (resolve_short_url e (str_strip e url0))) #
       (if fst (method2 e (fst (resolve_short_url e (str_strip e url0)))) \<noteq> None then []
        else [Post (TIKWM_API @ ''/'') (fst (resolve_short_url e (str_strip e url0)))]))"
proof -
  obtain url calls0 where r: "resolve_short_url e (str_strip e url0) = (url, calls0)"
    by (cases "resolve_short_url e (str_strip e url0)")
  have head_only: "strategy_calls calls0 = []"
    using strategy_calls_resolve [of e "str_strip e url0" "[]"] r
    by (simp add: strategy_calls_def)
  have m1: "method1 e url = (fst (method1 e url), [ExtractInfo url])"
    by (simp add: prod_eq_iff)
  show ?thesis
  proof (cases "HAS_YTDLP e")
    case False
    with r head_only show ?thesis
      by (simp add: get_video_no_watermark_def calls_after_method1)
  next
    case True
    show ?thesis
    proof (cases "fst (method1 e url)")
      case (Some result)
      with m1 have "method1 e url = (Some result, [ExtractInfo url])"
        by simp
      with True r Some head_only show ?thesis
        by (simp add: get_video_no_watermark_def) (simp add: strategy_calls_def)
    next
      case None
      with m1 have "method1 e url = (None, [ExtractInfo url])"
        by simp
      with True r None head_only show ?thesis
        by (simp add: get_video_no_watermark_def calls_after_method1)
          (simp add: strategy_calls_def)
    qed
  qed
qed

theorem strategies_tried_in_order_witness:
  "strategy_calls (snd (get_video_no_watermark ytdlp_finds ''https://www.tiktok.com/@a/video/1'')) =
    [ExtractInfo ''https://www.tiktok.com/@a/video/1'']"
proof -
  have s: "str_strip ytdlp_finds ''https://www.tiktok.com/@a/video/1'' =
      ''https://www.tiktok.com/@a/video/1''"
    by (simp add: ytdlp_finds_def offline_def ascii_strip_def ascii_space_def)
  have r: "resolve_short_url ytdlp_finds ''https://www.tiktok.com/@a/video/1'' =
      (''https://www.tiktok.com/@a/video/1'', [])"
    by (simp add: resolve_short_url_def contains_def)
  have h: "HAS_YTDLP ytdlp_finds"
    by (simp add: ytdlp_finds_def offline_def)
  have m: "fst (method1 ytdlp_finds ''https://www.tiktok.com/@a/video/1'') \<noteq> None"
    by (simp add: method1_def ytdlp_download_def ytdlp_finds_def offline_def)
  from strategies_tried_in_order [of ytdlp_finds "''https://www.tiktok.com/@a/video/1''"]
  show ?thesis
    by (simp only: s r fst_conv h m simp_thms if_True append_Nil2)
qed

text \<open>
  C5: the tikwm block returns its dict whenever the answer has code 0 and a true
  \<^verbatim>\<open>data\<close>, without the test for a media URL that the other two blocks make. With an
  answer that has neither \<^verbatim>\<open>hdplay\<close> nor \<^verbatim>\<open>play\<close> the function returns
  \<^verbatim>\<open>"error": False\<close> together with \<^verbatim>\<open>"video_url": None\<close>.
\<close>

theorem tikwm_success_without_media_url:
  "get_video_no_watermark tikwm_without_play ''https://www.tiktok.com/@a/video/1'' =
    (JDict
      [(''error'', JBool False),
       (''video_url'', JNull),
       (''music_url'', JNull),
       (''title'', JStr ''t''),
       (''author'', JStr ''''),
       (''duration'', JInt 0),
       (''cover'', JNull)],
     [Get ''https://www.tiktok.com/@a/video/1'',
      Post ''https://www.tikwm.com/api/'' ''https://www.tiktok.com/@a/video/1''])"
proof -
  have s: "str_strip tikwm_without_play ''https://www.tiktok.com/@a/video/1'' =
      ''https://www.tiktok.com/@a/video/1''"
    by (simp add: tikwm_without_play_def offline_def ascii_strip_def ascii_space_def)
  have r: "resolve_short_url tikwm_without_play ''https://www.tiktok.com/@a/video/1'' =
      (''https://www.tiktok.com/@a/video/1'', [])"
    by (simp add: resolve_short_url_def contains_def)
  have h: "\<not> HAS_YTDLP tikwm_without_play"
    by (simp add: tikwm_without_play_def offline_def)
  have m2: "method2 tikwm_without_play ''https://www.tiktok.com/@a/video/1'' =
      (None, [Get ''https://www.tiktok.com/@a/video/1''])"
    by (simp add: method2_def tikwm_without_play_def offline_def)
  have m3: "method3 tikwm_without_play ''https://www.tiktok.com/@a/video/1'' =
      (Some (JDict
        [(''error'', JBool False),
         (''video_url'', JNull),
         (''music_url'', JNull),
         (''title'', JStr ''t''),
         (''author'', JStr ''''),
         (''duration'', JInt 0),
         (''cover'', JNull)]),
       [Post ''https://www.tikwm.com/api/'' ''https://www.tiktok.com/@a/video/1''])"
    by (simp add: method3_def tikwm_without_play_def offline_def TIKWM_API_def py_or_def)
  show ?thesis
    by (simp add: get_video_no_watermark_def s r h m2 m3)
qed

lemma scrape_failure:
  assumes "upstream_failure e url"
  shows "scrape_tiktok_page e url = (JNull, [Get url])"
proof (cases "client_get e url")
  case (Inl ex)
  then show ?thesis
    by (simp add: scrape_tiktok_page_def)
next
  case (Inr response)
  show ?thesis
  proof (cases "status_code response \<noteq> 200")
    case True
    with Inr show ?thesis
      by (simp add: scrape_tiktok_page_def)
  next
    case ok: False
    show ?thesis
    proof (cases "search_rehydration (body response)")
      case None
      with Inr show ?thesis
        by (simp add: scrape_tiktok_page_def)
    next
      case (Some m)
      show ?thesis
      proof (cases "json_loads e m")
        case (Inl ex)
        with Inr Some show ?thesis
          by (simp add: scrape_tiktok_page_def)
      next
        case decoded: (Inr data)
        from assms Inr ok Some decoded
        have st: "case status_field data of Inl ex \<Rightarrow> True | Inr status \<Rightarrow> \<not> eq_zero status"
          by (simp add: upstream_failure_def)
        have "(case
            bind_exn (get data ''__DEFAULT_SCOPE__'' (JDict [])) (\<lambda>scope.
            bind_exn (get scope ''webapp.user-detail'' (JDict [])) (\<lambda>user_detail.
            bind_exn (get user_detail ''userInfo'' JNull) (\<lambda>user_info.
            if \<not> truthy user_info then Inr JNull
            else
              bind_exn (get user_detail ''statusCode'' JNull) (\<lambda>status.
              if \<not> eq_zero status then Inr JNull else Inr user_info))))
          of Inl ex \<Rightarrow> JNull | Inr v \<Rightarrow> v) = JNull"
          using st
          by (auto simp: status_field_def bind_exn_def split: sum.splits)
        with Inr ok Some decoded show ?thesis
          by (simp add: scrape_tiktok_page_def)
      qed
    qed
  qed
qed

text \<open>
  C6: for every input and every environment, if the input is rejected before the request,
  or the request for the profile page raises, answers with a status other than 200, answers
  with a page without the rehydration script, with a script text that does not decode, or
  with a payload whose status field is not zero, then \<^verbatim>\<open>get_user_by_username\<close> returns
  \<^verbatim>\<open>{"error": True}\<close>; it returns it as a value, no exception is raised.
\<close>

theorem username_failures_return_error:
  assumes "case normalize_username e username of
             None \<Rightarrow> True
           | Some u \<Rightarrow> upstream_failure e (''https://www.tiktok.com/@'' @ u)"
  shows "fst (get_user_by_username e username) = Inr error_result"
proof (cases "normalize_username e username")
  case None
  then show ?thesis
    by (simp add: get_user_by_username_def)
next
  case (Some u)
  with assms have "upstream_failure e (''https://www.tiktok.com/@'' @ u)"
    by simp
  then have "scrape_tiktok_page e (''https://www.tiktok.com/@'' @ u) =
      (JNull, [Get (''https://www.tiktok.com/@'' @ u)])"
    by (rule scrape_failure)
  with Some show ?thesis
    by (simp add: get_user_by_username_def)
qed

lemma normalize_nosuchuser:
  "normalize_username answers_404 ''nosuchuser'' = Some ''nosuchuser''"
  by (simp add: normalize_username_def answers_404_def offline_def ascii_strip_def
      ascii_space_def lstrip_def strip_def contains_def)

lemma normalize_bare_domain:
  "normalize_username answers_404 ''https://www.tiktok.com/'' = None"
  by (simp add: normalize_username_def answers_404_def offline_def ascii_strip_def
      ascii_space_def lstrip_def strip_def contains_def)

theorem username_failures_return_error_witness:
  "upstream_failure answers_404 ''https://www.tiktok.com/@nosuchuser''
   \<and> fst (get_user_by_username answers_404 ''nosuchuser'') = Inr error_result"
proof -
  have f: "upstream_failure answers_404 ''https://www.tiktok.com/@nosuchuser''"
    by (simp add: upstream_failure_def answers_404_def offline_def)
  then have h: "case normalize_username answers_404 ''nosuchuser'' of
             None \<Rightarrow> True
           | Some u \<Rightarrow> upstream_failure answers_404 (''https://www.tiktok.com/@'' @ u)"
    by (simp add: normalize_nosuchuser)
  from username_failures_return_error [of answers_404 "''nosuchuser''", OF h] f
  show ?thesis
    by simp
qed

text \<open>
  C7, amended: for an input that, once stripped, contains \<^verbatim>\<open>tiktok.com\<close> and has no
  match of the username pattern, \<^verbatim>\<open>get_user_by_username\<close> returns \<^verbatim>\<open>{"error": True}\<close>,
  the failure value of every other failure, and makes no request.
\<close>

theorem malformed_profile_url_fails_before_io:
  assumes "contains ''tiktok.com'' (strip CHR ''/'' (lstrip CHR ''@'' (str_strip e username)))"
    and "search_username (strip CHR ''/'' (lstrip CHR ''@'' (str_strip e username))) = None"
  shows "get_user_by_username e username = (Inr error_result, [])"
  using assms by (simp add: get_user_by_username_def normalize_username_def)

theorem malformed_profile_url_fails_before_io_witness:
  "get_user_by_username answers_404 ''https://www.tiktok.com/'' = (Inr error_result, [])"
proof -
  have n: "strip CHR ''/'' (lstrip CHR ''@'' (str_strip answers_404 ''https://www.tiktok.com/''))
      = ''https://www.tiktok.com''"
    by (simp add: answers_404_def offline_def ascii_strip_def ascii_space_def lstrip_def
        strip_def)
  have h1: "contains ''tiktok.com''
      (strip CHR ''/'' (lstrip CHR ''@'' (str_strip answers_404 ''https://www.tiktok.com/'')))"
    by (simp only: n) (simp add: contains_def)
  have h2: "search_username
      (strip CHR ''/'' (lstrip CHR ''@'' (str_strip answers_404 ''https://www.tiktok.com/'')))
      = None"
    by (simp only: n) simp
  from malformed_profile_url_fails_before_io
    [of answers_404 "''https://www.tiktok.com/''", OF h1 h2]
  show ?thesis .
qed

text \<open>
  C7 as stated fails in its last part: the value returned for a profile URL without a
  username and the value returned for a profile that the server does not know are the same
  dict \<^verbatim>\<open>{"error": True}\<close>; only the requests made differ.
\<close>

theorem invalid_input_not_distinct_counterexample:
  "get_user_by_username answers_404 ''https://www.tiktok.com/'' = (Inr error_result, [])
   \<and> get_user_by_username answers_404 ''nosuchuser'' =
       (Inr error_result, [Get ''https://www.tiktok.com/@nosuchuser''])
   \<and> \<not> fst (get_user_by_username answers_404 ''https://www.tiktok.com/'')
         \<noteq> fst (get_user_by_username answers_404 ''nosuchuser'')"
proof -
  have a: "get_user_by_username answers_404 ''https://www.tiktok.com/'' = (Inr error_result, [])"
    by (simp add: get_user_by_username_def normalize_bare_domain)
  have "scrape_tiktok_page answers_404 ''https://www.tiktok.com/@nosuchuser'' =
      (JNull, [Get ''https://www.tiktok.com/@nosuchuser''])"
    by (simp add: scrape_tiktok_page_def answers_404_def offline_def)
  then have b: "get_user_by_username answers_404 ''nosuchuser'' =
      (Inr error_result, [Get ''https://www.tiktok.com/@nosuchuser''])"
    by (simp add: get_user_by_username_def normalize_nosuchuser)
  from a b show ?thesis
    by simp
qed

text \<open>
  \<^verbatim>\<open>_format_number\<close> raises for one kind of value only: \<^verbatim>\<open>int\<close> of an infinite float
  raises \<^verbatim>\<open>OverflowError\<close>, which \<^verbatim>\<open>except (ValueError, TypeError)\<close> lets through.
\<close>

lemma format_number_returns:
  assumes "\<not> is_inf num"
  shows "format_number e num =
    Inr (case py_int e num of Inr n \<Rightarrow> format_grouped n | Inl ex \<Rightarrow> py_str e num)"
proof (cases num)
  case (JFloat f)
  with assms show ?thesis
    by (cases f) (simp_all add: format_number_def)
qed (simp_all add: format_number_def split: option.splits)

lemma format_number_inf:
  assumes "is_inf num"
  shows "format_number e num = Inl OverflowError"
proof (cases num)
  case (JFloat f)
  with assms show ?thesis
    by (cases f) (simp_all add: format_number_def)
qed (use assms in simp_all)

lemma format_number_get:
  assumes "case map_of s key of None \<Rightarrow> True | Some v \<Rightarrow> \<not> is_inf v"
  shows "format_number e (case map_of s key of None \<Rightarrow> JInt 0 | Some v \<Rightarrow> v) =
    Inr (case py_int e (case map_of s key of None \<Rightarrow> JInt 0 | Some v \<Rightarrow> v) of
           Inr n \<Rightarrow> format_grouped n
         | Inl ex \<Rightarrow> py_str e (case map_of s key of None \<Rightarrow> JInt 0 | Some v \<Rightarrow> v))"
  using assms by (intro format_number_returns) (simp split: option.splits)

lemma format_grouped_zero: "format_grouped 0 = ''0''"
  by (simp add: format_grouped_def digits.simps [of 0])

lemma lang_code_to_name_returns:
  assumes "\<not> truthy code \<or> is_str code"
  shows "lang_code_to_name e code =
    Inr (case code of
           JStr s \<Rightarrow>
             (if s = [] then ''N/A''
              else (case map_of (LANG_MAP e) (str_lower e s) of Some name \<Rightarrow> name | None \<Rightarrow> s))
         | _ \<Rightarrow> ''N/A'')"
  using assms by (cases code) (auto simp: lang_code_to_name_def split: option.splits)

lemma py_or_not_null:
  assumes "b \<noteq> JNull"
  shows "py_or a b \<noteq> JNull"
  using assms by (cases a) (auto simp: py_or_def)

lemma py_or_null_str:
  "\<not> truthy (py_or v JNull) \<or> is_str (py_or v JNull) \<longleftrightarrow> \<not> truthy v \<or> is_str v"
  by (cases v) (auto simp: py_or_def)

lemma resolve_region_absent: "resolve_region e JNull language = Inr ''N/A''"
  by (simp add: resolve_region_def)

text \<open>
  C8, amended: for a user dict with \<^verbatim>\<open>createTime\<close> 0 and no region, and a stats dict with
  \<^verbatim>\<open>followerCount\<close> 0, \<^verbatim>\<open>_format_user\<close> returns a record with followers \<^verbatim>\<open>"0"\<close>,
  created \<^verbatim>\<open>"N/A"\<close> and region \<^verbatim>\<open>"N/A"\<close>, provided that the language is absent, false
  or a string and that no count of the stats dict is an infinite float; a payload that
  breaks one of the two conditions can make it raise. No value of that record is
  \<^verbatim>\<open>None\<close> when none of the keys copied through holds \<^verbatim>\<open>null\<close>.
\<close>

theorem format_user_zero_payload:
  assumes "map_of u ''createTime'' = Some (JInt 0)"
    and "map_of u ''region'' = None \<or> map_of u ''region'' = Some JNull"
    and "map_of s ''followerCount'' = Some (JInt 0)"
    and "case map_of u ''language'' of None \<Rightarrow> True | Some v \<Rightarrow> \<not> truthy v \<or> is_str v"
    and "\<forall>k \<in> set count_keys. case map_of s k of None \<Rightarrow> True | Some v \<Rightarrow> \<not> is_inf v"
  shows "\<exists>r. format_user e (JDict u) (JDict s) = Inr (JDict r)
    \<and> map_of r ''followers'' = Some (JStr ''0'')
    \<and> map_of r ''created'' = Some (JStr ''N/A'')
    \<and> map_of r ''region'' = Some (JStr ''N/A'')
    \<and> ((\<forall>k \<in> set copied_keys. map_of u k \<noteq> Some JNull) \<longrightarrow>
          (\<forall>v \<in> snd ` set r. v \<noteq> JNull))"
proof -
  from assms(2) have region: "py_or (case map_of u ''region'' of None \<Rightarrow> JNull | Some v \<Rightarrow> v) JNull
      = JNull"
    by (auto simp: py_or_def)
  from assms(4) have "\<not> truthy (case map_of u ''language'' of None \<Rightarrow> JNull | Some v \<Rightarrow> v)
      \<or> is_str (case map_of u ''language'' of None \<Rightarrow> JNull | Some v \<Rightarrow> v)"
    by (auto split: option.splits)
  then have lang: "\<not> truthy (py_or (case map_of u ''language'' of None \<Rightarrow> JNull | Some v \<Rightarrow> v) JNull)
      \<or> is_str (py_or (case map_of u ''language'' of None \<Rightarrow> JNull | Some v \<Rightarrow> v) JNull)"
    by (simp only: py_or_null_str)
  from assms(5) have counts:
    "case map_of s ''friendCount'' of None \<Rightarrow> True | Some v \<Rightarrow> \<not> is_inf v"
    "case map_of s ''diggCount'' of None \<Rightarrow> True | Some v \<Rightarrow> \<not> is_inf v"
    "case map_of s ''followingCount'' of None \<Rightarrow> True | Some v \<Rightarrow> \<not> is_inf v"
    "case map_of s ''heartCount'' of None \<Rightarrow> True | Some v \<Rightarrow> \<not> is_inf v"
    "case map_of s ''videoCount'' of None \<Rightarrow> True | Some v \<Rightarrow> \<not> is_inf v"
    by (simp_all add: count_keys_def)
  have copied:
    "(case map_of u ''uniqueId'' of None \<Rightarrow> JStr ''N/A'' | Some v \<Rightarrow> v) \<noteq> JNull"
    "(case map_of u ''nickname'' of None \<Rightarrow> JStr ''N/A'' | Some v \<Rightarrow> v) \<noteq> JNull"
    "(case map_of u ''verified'' of None \<Rightarrow> JBool False | Some v \<Rightarrow> v) \<noteq> JNull"
    "(case map_of u ''privateAccount'' of None \<Rightarrow> JBool False | Some v \<Rightarrow> v) \<noteq> JNull"
    "(case map_of u ''avatarLarger'' of None \<Rightarrow> JStr '''' | Some v \<Rightarrow> v) \<noteq> JNull"
    if "\<forall>k \<in> set copied_keys. map_of u k \<noteq> Some JNull"
    using that by (auto simp: copied_keys_def split: option.splits)
  have link: "(case bio_link_data of
         JDict kvs \<Rightarrow> get bio_link_data ''link'' (JStr '''')
       | JStr s \<Rightarrow> Inr bio_link_data
       | _ \<Rightarrow> Inr (JStr '''')) =
      Inr (case bio_link_data of
         JDict kvs \<Rightarrow> (case map_of kvs ''link'' of None \<Rightarrow> JStr '''' | Some v \<Rightarrow> v)
       | JStr s \<Rightarrow> bio_link_data
       | _ \<Rightarrow> JStr '''')" for bio_link_data
    by (cases bio_link_data) simp_all
  show ?thesis
    using assms(1,3) copied
    by (simp add: format_user_def region resolve_region_absent link
        format_number_get [OF counts(1)] format_number_get [OF counts(2)]
        format_number_get [OF counts(3)] format_number_get [OF counts(4)]
        format_number_get [OF counts(5)] format_number_returns
        lang_code_to_name_returns [OF lang] py_or_not_null format_grouped_zero)
qed

text \<open>
  C8 as stated fails: the fallback text of \<^verbatim>\<open>_format_user\<close> is \<^verbatim>\<open>N/A\<close>, not
  \<^verbatim>\<open>unknown\<close>, and a \<^verbatim>\<open>null\<close> under a key that is copied through, here
  \<^verbatim>\<open>nickname\<close>, is a \<^verbatim>\<open>None\<close> in the record.
\<close>

theorem format_user_unknown_counterexample:
  "format_user offline
      (JDict [(''createTime'', JInt 0), (''nickname'', JNull)])
      (JDict [(''followerCount'', JInt 0)]) =
    Inr (JDict
      [(''error'', JBool False),
       (''username'', JStr ''N/A''),
       (''nickname'', JNull),
       (''user_id'', JStr ''N/A''),
       (''bio'', JStr ''N/A''),
       (''verified'', JBool False),
       (''private'', JBool False),
       (''followers'', JStr ''0''),
       (''following'', JStr ''0''),
       (''likes'', JStr ''0''),
       (''videos'', JStr ''0''),
       (''friends'', JStr ''0''),
       (''digg'', JStr ''0''),
       (''created'', JStr ''N/A''),
       (''region'', JStr ''N/A''),
       (''language'', JStr ''N/A''),
       (''bio_link'', JStr ''N/A''),
       (''profile_pic'', JStr []),
       (''profile_link'', JStr ''https://www.tiktok.com/@''),
       (''raw_user'', JDict [(''createTime'', JInt 0), (''nickname'', JNull)]),
       (''raw_stats'', JDict [(''followerCount'', JInt 0)])])
   \<and> map_of (items (projr (format_user offline
        (JDict [(''createTime'', JInt 0), (''nickname'', JNull)])
        (JDict [(''followerCount'', JInt 0)])))) ''created'' \<noteq> Some (JStr ''unknown'')
   \<and> map_of (items (projr (format_user offline
        (JDict [(''createTime'', JInt 0), (''nickname'', JNull)])
        (JDict [(''followerCount'', JInt 0)])))) ''region'' \<noteq> Some (JStr ''unknown'')
   \<and> map_of (items (projr (format_user offline
        (JDict [(''createTime'', JInt 0), (''nickname'', JNull)])
        (JDict [(''followerCount'', JInt 0)])))) ''nickname'' = Some JNull"
  by (simp add: format_user_def format_number_def format_grouped_zero resolve_region_def
      lang_code_to_name_def py_or_def)

theorem format_user_zero_payload_witness:
  "map_of (items (projr (format_user offline
      (JDict [(''createTime'', JInt 0)]) (JDict [(''followerCount'', JInt 0)])))) ''followers''
      = Some (JStr ''0'')
   \<and> map_of (items (projr (format_user offline
      (JDict [(''createTime'', JInt 0)]) (JDict [(''followerCount'', JInt 0)])))) ''created''
      = Some (JStr ''N/A'')
   \<and> map_of (items (projr (format_user offline
      (JDict [(''createTime'', JInt 0)]) (JDict [(''followerCount'', JInt 0)])))) ''region''
      = Some (JStr ''N/A'')
   \<and> JNull \<notin> snd ` set (items (projr (format_user offline
      (JDict [(''createTime'', JInt 0)]) (JDict [(''followerCount'', JInt 0)]))))"
proof -
  have h1: "map_of [(''createTime'', JInt 0)] ''createTime'' = Some (JInt 0)"
    by simp
  have h2: "map_of [(''createTime'', JInt 0)] ''region'' = None
      \<or> map_of [(''createTime'', JInt 0)] ''region'' = Some JNull"
    by simp
  have h3: "map_of [(''followerCount'', JInt 0)] ''followerCount'' = Some (JInt 0)"
    by simp
  have h4: "case map_of [(''createTime'', JInt 0)] ''language'' of
      None \<Rightarrow> True | Some v \<Rightarrow> \<not> truthy v \<or> is_str v"
    by simp
  have h5: "\<forall>k \<in> set count_keys.
      case map_of [(''followerCount'', JInt 0)] k of None \<Rightarrow> True | Some v \<Rightarrow> \<not> is_inf v"
    by (simp add: count_keys_def)
  have h6: "\<forall>k \<in> set copied_keys. map_of [(''createTime'', JInt 0)] k \<noteq> Some JNull"
    by (simp add: copied_keys_def)
  from format_user_zero_payload
    [of "[(''createTime'', JInt 0)]" "[(''followerCount'', JInt 0)]" offline,
      OF h1 h2 h3 h4 h5]
  obtain r where r: "format_user offline
      (JDict [(''createTime'', JInt 0)]) (JDict [(''followerCount'', JInt 0)]) = Inr (JDict r)"
    and f: "map_of r ''followers'' = Some (JStr ''0'')"
    and c: "map_of r ''created'' = Some (JStr ''N/A'')"
    and g: "map_of r ''region'' = Some (JStr ''N/A'')"
    and n: "(\<forall>k \<in> set copied_keys. map_of [(''createTime'', JInt 0)] k \<noteq> Some JNull) \<longrightarrow>
      (\<forall>v \<in> snd ` set r. v \<noteq> JNull)"
    by blast
  from n h6 have "JNull \<notin> snd ` set r"
    by blast
  with f c g show ?thesis
    by (simp only: r sum.sel items.simps) simp
qed

text \<open>
  The two blocks before the tikwm one return a record only with a true media URL: the test
  that the tikwm block leaves out.
\<close>

lemma ytdlp_download_media_url:
  "fst (ytdlp_download e url) = JNull
   \<or> (\<exists>v. map_of (items (fst (ytdlp_download e url))) ''video_url'' = Some v \<and> truthy v)"
proof (cases "extract_info e url")
  case (Inl ex)
  then show ?thesis
    by (simp add: ytdlp_download_def)
next
  case (Inr info)
  show ?thesis
  proof (cases info)
    case (JDict kvs)
    with Inr show ?thesis
      by (auto simp: ytdlp_download_def bind_exn_def split: sum.splits)
  qed (use Inr in \<open>simp_all add: ytdlp_download_def\<close>)
qed

lemma method1_media_url:
  assumes "fst (method1 e url) = Some r"
  shows "\<exists>v. map_of (items r) ''video_url'' = Some v \<and> truthy v"
proof -
  from assms have r: "r = fst (ytdlp_download e url)" and t: "truthy r"
    by (auto simp: method1_def split: prod.splits if_splits sum.splits)
  from t have "r \<noteq> JNull"
    by auto
  with r ytdlp_download_media_url [of e url] show ?thesis
    by simp
qed

lemma method2_media_url:
  assumes "fst (method2 e url) = Some r"
  shows "\<exists>v. map_of (items r) ''video_url'' = Some v \<and> truthy v"
  using assms
  by (auto simp: method2_def bind_exn_def split: sum.splits option.splits if_splits)

text \<open>
  Outside those upstream failures \<^verbatim>\<open>get_user_by_username\<close> can raise: a payload with
  status 0 whose \<^verbatim>\<open>userInfo\<close> is a non-empty string passes \<^verbatim>\<open>_scrape_tiktok_page\<close>, and
  \<^verbatim>\<open>user_info.get\<close> is called outside every \<^verbatim>\<open>try\<close>.
\<close>

lemma string_user_info_raises:
  "fst (get_user_by_username string_user_info ''someone'') = Inl AttributeError"
proof -
  have n: "normalize_username string_user_info ''someone'' = Some ''someone''"
    by (simp add: normalize_username_def string_user_info_def offline_def ascii_strip_def
        ascii_space_def lstrip_def strip_def contains_def)
  have s: "search_rehydration rehydration_page = Some rehydration_payload"
    by (simp add: search_rehydration_def rehydration_page_def rehydration_payload_def)
  have "scrape_tiktok_page string_user_info ''https://www.tiktok.com/@someone'' =
      (JStr ''x'', [Get ''https://www.tiktok.com/@someone''])"
    by (simp add: scrape_tiktok_page_def string_user_info_def offline_def s)
  with n show ?thesis
    by (simp add: get_user_by_username_def)
qed

text \<open>
  The two conditions under which \<^verbatim>\<open>_format_user\<close> returns are needed: an infinite count
  and a language that is a number both make it raise.
\<close>

lemma infinite_count_raises:
  "format_user offline
      (JDict [(''createTime'', JInt 0)])
      (JDict [(''followerCount'', JInt 0), (''videoCount'', JFloat PosInf)]) =
    Inl OverflowError"
  by (simp add: format_user_def format_number_def format_grouped_zero resolve_region_def
      py_or_def)

lemma number_language_raises:
  "format_user offline
      (JDict [(''createTime'', JInt 0), (''language'', JInt 5)])
      (JDict [(''followerCount'', JInt 0)]) =
    Inl AttributeError"
  by (simp add: format_user_def format_number_def format_grouped_zero resolve_region_def
      lang_code_to_name_def py_or_def)

end
